theory Spec2Isabelle
  imports Main "HOL-Library.Word" "HOL-Library.Monad_Syntax"
begin

section \<open>HPKE: the suite registry (crypto/hpke.c)\<close>

text \<open>
  Octets are natural numbers below 256, buffers are lists of octets, and a C pointer that
  may be NULL is an \<open>option\<close>.  The 16-bit code points of a suite are \<open>16 word\<close>s, as
  \<open>uint16_t\<close> in the source.  Functions returning \<open>int\<close> return \<open>int\<close> here; a
  \<open>return(__LINE__)\<close> returns the number of the source line it stands on.
  Allocation is taken to succeed, except that \<open>OPENSSL_malloc(0)\<close> returns NULL.
\<close>

type_synonym octets = "nat list"

datatype evp_md = EVP_sha256 | EVP_sha384 | EVP_sha512

datatype evp_cipher = EVP_aes_128_gcm | EVP_aes_256_gcm | EVP_chacha20_poly1305

datatype nid = NID_none | NID_X9_62_prime256v1 | NID_secp384r1 | NID_secp521r1
  | EVP_PKEY_X25519 | EVP_PKEY_X448

record hpke_suite_t =
  kem_id :: "16 word"
  kdf_id :: "16 word"
  aead_id :: "16 word"

record hpke_aead_info_t =
  aead_info_id :: "16 word"
  aead_init_func :: "evp_cipher option"
  taglen :: nat
  Nk :: nat
  Nn :: nat

record hpke_kem_info_t =
  kem_info_id :: "16 word"
  groupid :: nid
  kem_hash_init_func :: "evp_md option"
  Nsecret :: nat
  Nenc :: nat
  Npk :: nat
  Npriv :: nat

record hpke_kdf_info_t =
  kdf_info_id :: "16 word"
  kdf_hash_init_func :: "evp_md option"
  Nh :: nat

text \<open>
  Modelled from the spec: the code points below are macros of hpke.h, which is not among
  the sources.  The spec (section 3) lists the accepted KEM ids 0x0010, 0x0011, 0x0012,
  0x0020, 0x0021, and the tables of hpke.c are "indexed by identifier value", which fixes
  the KDF and AEAD ids as the positions 1, 2, 3 of their rows; the modes are numbered in
  the order of \<open>hpke_mode_strtab\<close>.
\<close>

definition HPKE_KEM_ID_P256 :: "16 word" where "HPKE_KEM_ID_P256 = 0x10"
definition HPKE_KEM_ID_P384 :: "16 word" where "HPKE_KEM_ID_P384 = 0x11"
definition HPKE_KEM_ID_P521 :: "16 word" where "HPKE_KEM_ID_P521 = 0x12"
definition HPKE_KEM_ID_25519 :: "16 word" where "HPKE_KEM_ID_25519 = 0x20"
definition HPKE_KEM_ID_448 :: "16 word" where "HPKE_KEM_ID_448 = 0x21"

definition HPKE_KDF_ID_HKDF_SHA256 :: "16 word" where "HPKE_KDF_ID_HKDF_SHA256 = 1"
definition HPKE_KDF_ID_HKDF_SHA384 :: "16 word" where "HPKE_KDF_ID_HKDF_SHA384 = 2"
definition HPKE_KDF_ID_HKDF_SHA512 :: "16 word" where "HPKE_KDF_ID_HKDF_SHA512 = 3"

definition HPKE_AEAD_ID_AES_GCM_128 :: "16 word" where "HPKE_AEAD_ID_AES_GCM_128 = 1"
definition HPKE_AEAD_ID_AES_GCM_256 :: "16 word" where "HPKE_AEAD_ID_AES_GCM_256 = 2"
definition HPKE_AEAD_ID_CHACHA_POLY1305 :: "16 word" where "HPKE_AEAD_ID_CHACHA_POLY1305 = 3"

definition HPKE_MODE_BASE :: nat where "HPKE_MODE_BASE = 0"
definition HPKE_MODE_PSK :: nat where "HPKE_MODE_PSK = 1"
definition HPKE_MODE_AUTH :: nat where "HPKE_MODE_AUTH = 2"
definition HPKE_MODE_PSKAUTH :: nat where "HPKE_MODE_PSKAUTH = 3"

definition aead_row :: "16 word \<Rightarrow> evp_cipher option \<Rightarrow> nat \<Rightarrow> nat \<Rightarrow> nat \<Rightarrow> hpke_aead_info_t" where
  "aead_row i f t k n = \<lparr>aead_info_id = i, aead_init_func = f, taglen = t, Nk = k, Nn = n\<rparr>"

definition kem_row ::
  "16 word \<Rightarrow> nid \<Rightarrow> evp_md option \<Rightarrow> nat \<Rightarrow> nat \<Rightarrow> nat \<Rightarrow> nat \<Rightarrow> hpke_kem_info_t" where
  "kem_row i g f s e p r =
     \<lparr>kem_info_id = i, groupid = g, kem_hash_init_func = f, Nsecret = s, Nenc = e, Npk = p,
      Npriv = r\<rparr>"

definition kdf_row :: "16 word \<Rightarrow> evp_md option \<Rightarrow> nat \<Rightarrow> hpke_kdf_info_t" where
  "kdf_row i f h = \<lparr>kdf_info_id = i, kdf_hash_init_func = f, Nh = h\<rparr>"

definition hpke_aead_tab :: "hpke_aead_info_t list" where
  "hpke_aead_tab =
     [aead_row 0 None 0 0 0,
      aead_row HPKE_AEAD_ID_AES_GCM_128 (Some EVP_aes_128_gcm) 16 16 12,
      aead_row HPKE_AEAD_ID_AES_GCM_256 (Some EVP_aes_256_gcm) 16 32 12,
      aead_row HPKE_AEAD_ID_CHACHA_POLY1305 (Some EVP_chacha20_poly1305) 16 32 12]"

text \<open>The filler rows of the KEM table: \<open>{ n, 0, NULL, 0, 0, 0 }\<close>.\<close>

definition kem_blank :: "16 word \<Rightarrow> hpke_kem_info_t" where
  "kem_blank n = kem_row n NID_none None 0 0 0 0"

definition hpke_kem_tab :: "hpke_kem_info_t list" where
  "hpke_kem_tab =
     [kem_blank 0, kem_blank 1, kem_blank 2, kem_blank 3, kem_blank 4, kem_blank 5,
      kem_blank 6, kem_blank 7, kem_blank 8, kem_blank 9, kem_blank 10, kem_blank 11,
      kem_blank 12, kem_blank 13, kem_blank 14, kem_blank 15,
      kem_row HPKE_KEM_ID_P256 NID_X9_62_prime256v1 (Some EVP_sha256) 32 65 65 32,
      kem_row HPKE_KEM_ID_P384 NID_secp384r1 (Some EVP_sha384) 48 97 97 48,
      kem_row HPKE_KEM_ID_P521 NID_secp521r1 (Some EVP_sha512) 64 133 133 66,
      kem_blank 19, kem_blank 20, kem_blank 21, kem_blank 22, kem_blank 23, kem_blank 24,
      kem_blank 25, kem_blank 26, kem_blank 27, kem_blank 28, kem_blank 29, kem_blank 30,
      kem_blank 31,
      kem_row HPKE_KEM_ID_25519 EVP_PKEY_X25519 (Some EVP_sha256) 32 32 32 32,
      kem_row HPKE_KEM_ID_448 EVP_PKEY_X448 (Some EVP_sha512) 64 56 56 56,
      kem_blank 34]"

definition hpke_kdf_tab :: "hpke_kdf_info_t list" where
  "hpke_kdf_tab =
     [kdf_row 0 None 0,
      kdf_row HPKE_KDF_ID_HKDF_SHA256 (Some EVP_sha256) 32,
      kdf_row HPKE_KDF_ID_HKDF_SHA384 (Some EVP_sha384) 48,
      kdf_row HPKE_KDF_ID_HKDF_SHA512 (Some EVP_sha512) 64]"

text \<open>
  The three loops of \<open>hpke_suite_check\<close>: walk the table from index 0 and stop at the
  first row whose id is the one looked for and whose algorithm pointer is not NULL.
\<close>

fun kem_loop :: "16 word \<Rightarrow> hpke_kem_info_t list \<Rightarrow> int" where
  "kem_loop k [] = 0"
| "kem_loop k (r # rs) =
     (if k = kem_info_id r \<and> kem_hash_init_func r \<noteq> None then 1 else kem_loop k rs)"

fun kdf_loop :: "16 word \<Rightarrow> hpke_kdf_info_t list \<Rightarrow> int" where
  "kdf_loop k [] = 0"
| "kdf_loop k (r # rs) =
     (if k = kdf_info_id r \<and> kdf_hash_init_func r \<noteq> None then 1 else kdf_loop k rs)"

fun aead_loop :: "16 word \<Rightarrow> hpke_aead_info_t list \<Rightarrow> int" where
  "aead_loop k [] = 0"
| "aead_loop k (r # rs) =
     (if k = aead_info_id r \<and> aead_init_func r \<noteq> None then 1 else aead_loop k rs)"

definition hpke_suite_check :: "hpke_suite_t \<Rightarrow> int" where
  "hpke_suite_check suite =
     (let kem_ok = kem_loop (kem_id suite) hpke_kem_tab;
          kdf_ok = kdf_loop (kdf_id suite) hpke_kdf_tab;
          aead_ok = aead_loop (aead_id suite) hpke_aead_tab
      in if kem_ok = 1 \<and> kdf_ok = 1 \<and> aead_ok = 1 then 1 else 0)"

section \<open>HPKE: ascii-hex decoding\<close>

text \<open>
  Modelled from the spec: \<open>HPKE_A2B\<close> is a macro of hpke.h, which is not among the
  sources; it gives the value of an ascii-hex digit of either case, and 0 for any other
  character.
\<close>

definition HPKE_A2B :: "char \<Rightarrow> nat" where
  "HPKE_A2B c =
     (let n = (of_char c :: nat) in
      if 48 \<le> n \<and> n \<le> 57 then n - 48
      else if 65 \<le> n \<and> n \<le> 70 then n - 65 + 10
      else if 97 \<le> n \<and> n \<le> 102 then n - 97 + 10
      else 0)"

text \<open>
  \<open>hpke_ah_decode(ahlen, ah, blen, buf)\<close>.  The two output pointers are modelled by
  whether they are non-NULL; the result is the return value and the buffer written.
  The source tests \<open>ahlen%1\<close>, and the model does.  The caller owes \<open>ahlen\<close> readable
  characters behind \<open>ah\<close>.
\<close>

definition hpke_ah_decode :: "nat \<Rightarrow> string option \<Rightarrow> bool \<Rightarrow> bool \<Rightarrow> int \<times> octets option" where
  "hpke_ah_decode ahlen ah blen buf =
     (if ahlen \<le> 0 \<or> ah = None \<or> \<not> blen \<or> \<not> buf then (0, None)
      else if ahlen mod 1 \<noteq> 0 then (0, None)
      else
        let lblen = ahlen div 2 in
        if lblen = 0 then (0, None)
        else
          (1, Some (map (\<lambda>i. (HPKE_A2B (the ah ! (2 * i)) * 16
                               + HPKE_A2B (the ah ! (2 * i + 1))) mod 256) [0..<lblen])))"

section \<open>HPKE: mode and PSK checks, and the entry of seal and open\<close>

definition hpke_mode_check :: "nat \<Rightarrow> int" where
  "hpke_mode_check mode =
     (if mode = HPKE_MODE_BASE \<or> mode = HPKE_MODE_PSK \<or> mode = HPKE_MODE_AUTH
         \<or> mode = HPKE_MODE_PSKAUTH then 1 else 1251)"

text \<open>
  \<open>hpke_psk_check(mode, pskid, psklen, psk)\<close>: \<open>pskid\<close> is a C string that may be NULL,
  \<open>psk\<close> a buffer that may be NULL, \<open>psklen\<close> its stated length.
\<close>

definition hpke_psk_check :: "nat \<Rightarrow> string option \<Rightarrow> nat \<Rightarrow> octets option \<Rightarrow> int" where
  "hpke_psk_check mode pskid psklen psk =
     (if mode = HPKE_MODE_BASE \<or> mode = HPKE_MODE_AUTH then 1
      else if pskid = None then 1274
      else if psklen = 0 then 1275
      else if psk = None then 1276
      else 1)"

text \<open>
  The arguments of \<open>hpke_enc\<close> and \<open>hpke_dec\<close>.  Output pointers are modelled by whether
  they are non-NULL.
\<close>

record hpke_enc_args =
  enc_mode :: nat
  enc_suite :: hpke_suite_t
  enc_pskid :: "string option"
  enc_psklen :: nat
  enc_psk :: "octets option"
  enc_publen :: nat
  enc_pub :: "octets option"
  enc_privlen :: nat
  enc_priv :: "octets option"
  enc_clearlen :: nat
  enc_clear :: "octets option"
  enc_aadlen :: nat
  enc_aad :: "octets option"
  enc_infolen :: nat
  enc_info :: "octets option"
  enc_senderpublen :: "nat option"
  enc_senderpub :: bool
  enc_cipherlen :: "nat option"
  enc_cipher :: bool

record hpke_dec_args =
  dec_mode :: nat
  dec_suite :: hpke_suite_t
  dec_pskid :: "string option"
  dec_psklen :: nat
  dec_psk :: "octets option"
  dec_publen :: nat
  dec_pub :: "octets option"
  dec_privlen :: nat
  dec_priv :: "octets option"
  dec_evppriv :: bool
  dec_enclen :: nat
  dec_enc :: "octets option"
  dec_cipherlen :: nat
  dec_cipher :: "octets option"
  dec_aadlen :: nat
  dec_aad :: "octets option"
  dec_infolen :: nat
  dec_info :: "octets option"
  dec_clearlen :: "nat option"
  dec_clear :: bool

text \<open>
  \<open>hpke_enc\<close> and \<open>hpke_dec\<close> open with the same run of checks, each returning at once.
  What follows them (key import, the KEM, the key schedule and the AEAD call, all through
  OpenSSL's EVP interface) is the parameter \<open>steps\<close>: it is only reached when every
  check has passed, and its return value is then the function's.
\<close>

definition hpke_enc :: "(hpke_enc_args \<Rightarrow> int) \<Rightarrow> hpke_enc_args \<Rightarrow> int" where
  "hpke_enc steps a =
     (let mode = enc_mode a in
      if hpke_mode_check mode \<noteq> 1 then hpke_mode_check mode
      else if hpke_psk_check mode (enc_pskid a) (enc_psklen a) (enc_psk a) \<noteq> 1
        then hpke_psk_check mode (enc_pskid a) (enc_psklen a) (enc_psk a)
      else if hpke_suite_check (enc_suite a) \<noteq> 1 then hpke_suite_check (enc_suite a)
      else if enc_pub a = None \<or> enc_clear a = None \<or> enc_senderpublen a = None
              \<or> \<not> enc_senderpub a \<or> enc_cipherlen a = None \<or> \<not> enc_cipher a then 1374
      else if (mode = HPKE_MODE_AUTH \<or> mode = HPKE_MODE_PSKAUTH)
              \<and> (enc_priv a = None \<or> enc_privlen a = 0) then 1375
      else if (mode = HPKE_MODE_PSK \<or> mode = HPKE_MODE_PSKAUTH)
              \<and> (enc_psk a = None \<or> enc_psklen a = 0 \<or> enc_pskid a = None) then 1376
      else steps a)"

definition hpke_dec :: "(hpke_dec_args \<Rightarrow> int) \<Rightarrow> hpke_dec_args \<Rightarrow> int" where
  "hpke_dec steps a =
     (let mode = dec_mode a in
      if hpke_mode_check mode \<noteq> 1 then hpke_mode_check mode
      else if hpke_psk_check mode (dec_pskid a) (dec_psklen a) (dec_psk a) \<noteq> 1
        then hpke_psk_check mode (dec_pskid a) (dec_psklen a) (dec_psk a)
      else if hpke_suite_check (dec_suite a) \<noteq> 1 then hpke_suite_check (dec_suite a)
      else if \<not> (dec_priv a \<noteq> None \<or> dec_evppriv a) \<or> dec_clearlen a = None
              \<or> \<not> dec_clear a \<or> dec_cipher a = None then 1754
      else if (mode = HPKE_MODE_AUTH \<or> mode = HPKE_MODE_PSKAUTH)
              \<and> (dec_pub a = None \<or> dec_publen a = 0) then 1755
      else if (mode = HPKE_MODE_PSK \<or> mode = HPKE_MODE_PSKAUTH)
              \<and> (dec_psk a = None \<or> dec_psklen a = 0 \<or> dec_pskid a = None) then 1756
      else steps a)"


section \<open>HPKE: AEAD open\<close>

text \<open>
  \<open>hpke_aead_dec\<close> drives OpenSSL's EVP cipher interface, which is not part of the
  sources.  The interface is a parameter: a record of the calls the function makes, each
  taking the cipher context and returning the call's \<open>int\<close> result with the new context.
  Buffers are passed as the source passes them: \<open>EVP_DecryptUpdate\<close> receives the input
  buffer and the length argument \<open>inl\<close> (an \<open>int\<close>), and returns what it wrote and the
  \<open>len\<close> it stored; the tag is passed as the \<open>cipher\<close> buffer with the offset of the tag
  pointer in it.
\<close>

record 'c evp_decrypt =
  EVP_CIPHER_CTX_new :: "'c option"
  EVP_DecryptInit_ex_cipher :: "'c \<Rightarrow> evp_cipher \<Rightarrow> int \<times> 'c"
  EVP_CTRL_GCM_SET_IVLEN :: "'c \<Rightarrow> int \<Rightarrow> int \<times> 'c"
  EVP_DecryptInit_ex_key_iv :: "'c \<Rightarrow> octets \<Rightarrow> octets \<Rightarrow> int \<times> 'c"
  EVP_DecryptUpdate_aad :: "'c \<Rightarrow> octets \<Rightarrow> int \<Rightarrow> int \<times> 'c"
  EVP_DecryptUpdate :: "'c \<Rightarrow> octets \<Rightarrow> int \<Rightarrow> int \<times> 'c \<times> octets \<times> int"
  EVP_CTRL_GCM_SET_TAG :: "'c \<Rightarrow> int \<Rightarrow> octets \<Rightarrow> int \<Rightarrow> int \<times> 'c"
  EVP_DecryptFinal_ex :: "'c \<Rightarrow> int \<times> 'c \<times> int"

text \<open>
  The conversions of C: a \<open>size_t\<close> (64 bits) passed for an \<open>int\<close> parameter (32 bits,
  two's complement), an \<open>int\<close> stored in a \<open>size_t\<close>, and subtraction in \<open>size_t\<close>.
\<close>

definition size_t_to_int :: "nat \<Rightarrow> int" where
  "size_t_to_int n =
     (let m = int n mod 4294967296 in if m < 2147483648 then m else m - 4294967296)"

definition int_to_size_t :: "int \<Rightarrow> nat" where
  "int_to_size_t i = nat (i mod 18446744073709551616)"

definition size_t_minus :: "nat \<Rightarrow> nat \<Rightarrow> nat" where
  "size_t_minus a b = nat ((int a - int b) mod 18446744073709551616)"

text \<open>
  \<open>hpke_aead_dec(suite, key, keylen, iv, ivlen, aad, aadlen, cipher, cipherlen, plain,
  plainlen)\<close>.  \<open>plainlen\<close> is the capacity \<open>*plainlen\<close> on entry.  The result is the
  return value, then on success the octets copied to \<open>plain\<close> with the length stored in
  \<open>*plainlen\<close>, then the cipher context handed to \<open>EVP_CIPHER_CTX_free\<close> at the label
  \<open>err\<close> (\<open>None\<close> when none was created).  The table row is
  \<open>hpke_aead_tab[suite.aead_id]\<close>; the function is static and its callers have passed
  \<open>hpke_suite_check\<close>, so the index is 1, 2 or 3.
\<close>

definition hpke_aead_dec ::
  "'c evp_decrypt \<Rightarrow> hpke_suite_t \<Rightarrow> octets \<Rightarrow> nat \<Rightarrow> octets \<Rightarrow> nat \<Rightarrow> octets option \<Rightarrow> nat
     \<Rightarrow> octets \<Rightarrow> nat \<Rightarrow> nat \<Rightarrow> int \<times> (octets \<times> nat) option \<times> 'c option" where
  "hpke_aead_dec evp suite key keylen iv ivlen aad aadlen cipher cipherlen plainlen =
     (let row = hpke_aead_tab ! unat (aead_id suite); tl = taglen row in
      if cipherlen = 0 then (444, None, None)
      else
        (case EVP_CIPHER_CTX_new evp of
           None \<Rightarrow> (448, None, None)
         | Some c0 \<Rightarrow>
         (case aead_init_func row of
            None \<Rightarrow> (453, None, Some c0)
          | Some enc \<Rightarrow>
          (case EVP_DecryptInit_ex_cipher evp c0 enc of (r1, c1) \<Rightarrow>
           if r1 \<noteq> 1 then (456, None, Some c1)
           else
          (case EVP_CTRL_GCM_SET_IVLEN evp c1 (size_t_to_int ivlen) of (r2, c2) \<Rightarrow>
           if r2 \<noteq> 1 then (459, None, Some c2)
           else
          (case EVP_DecryptInit_ex_key_iv evp c2 key iv of (r3, c3) \<Rightarrow>
           if r3 \<noteq> 1 then (463, None, Some c3)
           else
          (case (if aadlen \<noteq> 0 \<and> aad \<noteq> None
                 then EVP_DecryptUpdate_aad evp c3 (the aad) (size_t_to_int aadlen)
                 else (1, c3)) of (r4, c4) \<Rightarrow>
           if r4 \<noteq> 1 then (470, None, Some c4)
           else
          (case EVP_DecryptUpdate evp c4 cipher (size_t_to_int (size_t_minus cipherlen tl)) of
             (r5, c5, plaintext, len) \<Rightarrow>
           if r5 \<noteq> 1 then (477, None, Some c5)
           else
          (case EVP_CTRL_GCM_SET_TAG evp c5 (size_t_to_int tl) cipher
                  (int cipherlen - int tl) of (r6, c6) \<Rightarrow>
           if r6 = 0 then (483, None, Some c6)
           else
          (case EVP_DecryptFinal_ex evp c6 of (r7, c7, len2) \<Rightarrow>
           if r7 \<le> 0 then (489, None, Some c7)
           else if int_to_size_t len > plainlen then (494, None, Some c7)
           else (1, Some (take (int_to_size_t len) plaintext, int_to_size_t len),
                 Some c7)))))))))))"

text \<open>
  An EVP double for running \<open>hpke_aead_dec\<close>: its context is the list of the calls made
  so far with their arguments, every call returns 1, and \<open>EVP_DecryptUpdate\<close> writes
  nothing.  It shows which calls the function makes and what it passes to them.
\<close>

datatype evp_call =
    Call_DecryptInit_ex_cipher evp_cipher
  | Call_SET_IVLEN int
  | Call_DecryptInit_ex_key_iv octets octets
  | Call_DecryptUpdate_aad octets int
  | Call_DecryptUpdate octets int
  | Call_SET_TAG int octets int
  | Call_DecryptFinal_ex

definition evp_recorder :: "evp_call list evp_decrypt" where
  "evp_recorder =
     \<lparr>EVP_CIPHER_CTX_new = Some [],
      EVP_DecryptInit_ex_cipher = (\<lambda>c enc. (1, c @ [Call_DecryptInit_ex_cipher enc])),
      EVP_CTRL_GCM_SET_IVLEN = (\<lambda>c n. (1, c @ [Call_SET_IVLEN n])),
      EVP_DecryptInit_ex_key_iv = (\<lambda>c k i. (1, c @ [Call_DecryptInit_ex_key_iv k i])),
      EVP_DecryptUpdate_aad = (\<lambda>c a n. (1, c @ [Call_DecryptUpdate_aad a n])),
      EVP_DecryptUpdate = (\<lambda>c b n. (1, c @ [Call_DecryptUpdate b n], [], 0)),
      EVP_CTRL_GCM_SET_TAG = (\<lambda>c n b off. (1, c @ [Call_SET_TAG n b off])),
      EVP_DecryptFinal_ex = (\<lambda>c. (1, c @ [Call_DecryptFinal_ex], 0))\<rparr>"

section \<open>ECH: reading ECHConfigs (ssl/ech.c)\<close>

text \<open>The limits of ech_local.h.\<close>

definition ECH_MIN_ECHCONFIG_LEN :: nat where "ECH_MIN_ECHCONFIG_LEN = 32"
definition ECH_MAX_ECHCONFIG_LEN :: nat where "ECH_MAX_ECHCONFIG_LEN = 512"
definition ECH_CIPHER_LEN :: nat where "ECH_CIPHER_LEN = 4"
definition ECH_OUTERS_MAX :: nat where "ECH_OUTERS_MAX = 10"

text \<open>
  Modelled from the spec: \<open>ECH_DRAFT_09_VERSION\<close> (ech.h) and \<open>TLSEXT_MAXLEN_host_name\<close>
  (tls1.h) are macros of headers that are not among the sources.  The spec gives the
  version as 0xff09 and the longest public name as 255 octets.
\<close>

definition ECH_DRAFT_09_VERSION :: nat where "ECH_DRAFT_09_VERSION = 0xff09"
definition TLSEXT_MAXLEN_host_name :: nat where "TLSEXT_MAXLEN_host_name = 255"

text \<open>
  Modelled from the spec: the \<open>PACKET\<close> readers are inline functions of
  internal/packet.h, which is not among the sources.  A \<open>PACKET\<close> is the list of octets
  still to be read; every reader fails without consuming when too few remain, a u16 is
  read in network order ("u16 version, u16 content_length, content"), and a
  length-prefixed read yields the sub-packet of that length.
\<close>

definition PACKET_remaining :: "octets \<Rightarrow> nat" where
  "PACKET_remaining pkt = length pkt"

definition PACKET_get_net_2 :: "octets \<Rightarrow> (nat \<times> octets) option" where
  "PACKET_get_net_2 pkt =
     (if PACKET_remaining pkt < 2 then None
      else Some (pkt ! 0 * 256 + pkt ! 1, drop 2 pkt))"

definition PACKET_copy_bytes :: "octets \<Rightarrow> nat \<Rightarrow> (octets \<times> octets) option" where
  "PACKET_copy_bytes pkt len =
     (if PACKET_remaining pkt < len then None else Some (take len pkt, drop len pkt))"

definition PACKET_get_length_prefixed_2 :: "octets \<Rightarrow> (octets \<times> octets) option" where
  "PACKET_get_length_prefixed_2 pkt =
     (case PACKET_get_net_2 pkt of
        None \<Rightarrow> None
      | Some (len, tmp) \<Rightarrow> PACKET_copy_bytes tmp len)"

record ECHConfig =
  ec_version :: nat
  ec_public_name_len :: nat
  ec_public_name :: octets
  ec_kem_id :: nat
  ec_pub_len :: nat
  ec_pub :: octets
  ec_nsuites :: nat
  ec_ciphersuites :: "octets list"
  ec_maximum_name_length :: nat
  ec_nexts :: nat
  ec_exttypes :: "nat list"
  ec_extlens :: "nat list"
  ec_exts :: "octets option list"
  ec_config_id_len :: nat
  ec_config_id :: "octets option"

record ECHConfigs =
  encoded_len :: nat
  encoded :: octets
  nrecs :: int
  recs :: "ECHConfig list"

function ech_suites_loop :: "octets \<Rightarrow> octets list \<Rightarrow> octets list \<times> octets" where
  "ech_suites_loop cipher_suites acc =
     (case PACKET_copy_bytes cipher_suites ECH_CIPHER_LEN of
        None \<Rightarrow> (acc, cipher_suites)
      | Some (cipher, rest) \<Rightarrow> ech_suites_loop rest (acc @ [cipher]))"
  by pat_completeness auto
termination
  by (relation "measure (\<lambda>(p, acc). length p)")
     (auto simp: PACKET_copy_bytes_def ECH_CIPHER_LEN_def PACKET_remaining_def split: if_splits)

function ech_exts_loop ::
  "nat \<Rightarrow> octets \<Rightarrow> (nat \<times> nat \<times> octets option) list
     \<Rightarrow> (nat \<times> nat \<times> octets option) list option" where
  "ech_exts_loop rrmax exts acc =
     (if PACKET_remaining exts > 0 then
        (case PACKET_get_net_2 exts of
           None \<Rightarrow> None
         | Some (exttype, e1) \<Rightarrow>
             if (0::nat) \<ge> rrmax then None
             else
               (case PACKET_get_net_2 e1 of
                  None \<Rightarrow> None
                | Some (extlen, e2) \<Rightarrow>
                    if extlen \<noteq> 0 then
                      (case PACKET_copy_bytes e2 extlen of
                         None \<Rightarrow> None
                       | Some (extval, e3) \<Rightarrow>
                           ech_exts_loop rrmax e3 (acc @ [(exttype, extlen, Some extval)]))
                    else ech_exts_loop rrmax e2 (acc @ [(exttype, extlen, None)])))
      else Some acc)"
  by pat_completeness auto
termination
  by (relation "measure (\<lambda>(m, p, acc). length p)")
     (auto simp: PACKET_copy_bytes_def PACKET_get_net_2_def PACKET_remaining_def
           split: if_splits)

text \<open>
  The body of the record loop of \<open>ECHConfigs_from_binary\<close> for a record of version
  \<open>ECH_DRAFT_09_VERSION\<close>, from "read public_name" to the \<open>config_id\<close>: the fields of
  the \<open>ECHConfig\<close> and the packet after them, or \<open>None\<close> where the source goes to
  \<open>err\<close>.  The stored \<open>public_name\<close> is followed by a NUL octet in the source's buffer,
  which the model leaves out.
\<close>

definition ech_config_body :: "nat \<Rightarrow> nat \<Rightarrow> octets \<Rightarrow> (ECHConfig \<times> octets) option" where
  "ech_config_body rrmax ver pkt =
     (case PACKET_get_length_prefixed_2 pkt of
        None \<Rightarrow> None
      | Some (public_name_pkt, p1) \<Rightarrow>
          let public_name_len = PACKET_remaining public_name_pkt in
          if public_name_len \<le> 1 \<or> public_name_len > TLSEXT_MAXLEN_host_name then None
          else
            (case PACKET_get_length_prefixed_2 p1 of
               None \<Rightarrow> None
             | Some (pub_pkt, p2) \<Rightarrow>
                 let pub_len = PACKET_remaining pub_pkt in
                 if pub_len = 0 then None
                 else
                   (case PACKET_get_net_2 p2 of
                      None \<Rightarrow> None
                    | Some (kem, p3) \<Rightarrow>
                        (case PACKET_get_length_prefixed_2 p3 of
                           None \<Rightarrow> None
                         | Some (cipher_suites, p4) \<Rightarrow>
                             let suiteoctets = PACKET_remaining cipher_suites in
                             if suiteoctets \<le> 0 \<or> suiteoctets mod 1 \<noteq> 0 then None
                             else
                               let nsuites = suiteoctets div ECH_CIPHER_LEN in
                               if nsuites * ECH_CIPHER_LEN = 0 then None
                               else
                                 (case ech_suites_loop cipher_suites [] of
                                    (suites, rest) \<Rightarrow>
                                      if PACKET_remaining rest > 0 then None
                                      else
                                        (case PACKET_get_net_2 p4 of
                                           None \<Rightarrow> None
                                         | Some (maxlen, p5) \<Rightarrow>
                                             (case PACKET_get_length_prefixed_2 p5 of
                                                None \<Rightarrow> None
                                              | Some (exts, p6) \<Rightarrow>
                                                  (case ech_exts_loop rrmax exts [] of
                                                     None \<Rightarrow> None
                                                   | Some es \<Rightarrow>
                                                       Some
                                                        (\<lparr>ec_version = ver,
                                                          ec_public_name_len = public_name_len,
                                                          ec_public_name = public_name_pkt,
                                                          ec_kem_id = kem,
                                                          ec_pub_len = pub_len,
                                                          ec_pub = pub_pkt,
                                                          ec_nsuites = nsuites,
                                                          ec_ciphersuites = suites,
                                                          ec_maximum_name_length = maxlen,
                                                          ec_nexts = length es,
                                                          ec_exttypes = map fst es,
                                                          ec_extlens = map (fst \<circ> snd) es,
                                                          ec_exts = map (snd \<circ> snd) es,
                                                          ec_config_id_len = 0,
                                                          ec_config_id = None\<rparr>,
                                                         p6)))))))))"

lemma PACKET_get_net_2_shorter:
  "PACKET_get_net_2 p = Some (v, q) \<Longrightarrow> length q < length p"
  by (auto simp: PACKET_get_net_2_def PACKET_remaining_def split: if_splits)

lemma PACKET_copy_bytes_shorter:
  "PACKET_copy_bytes p n = Some (b, q) \<Longrightarrow> length q \<le> length p"
  by (auto simp: PACKET_copy_bytes_def split: if_splits)

lemma PACKET_get_length_prefixed_2_shorter:
  "PACKET_get_length_prefixed_2 p = Some (b, q) \<Longrightarrow> length q < length p"
  unfolding PACKET_get_length_prefixed_2_def
  by (auto split: option.splits dest!: PACKET_get_net_2_shorter PACKET_copy_bytes_shorter)

lemma ech_config_body_shorter:
  assumes "ech_config_body rrmax ver p = Some (ec, q)"
  shows "length q < length p"
proof -
  from assms obtain n1 p1 n2 p2 k p3 cs p4 m p5 es where
    a: "PACKET_get_length_prefixed_2 p = Some (n1, p1)"
    and b: "PACKET_get_length_prefixed_2 p1 = Some (n2, p2)"
    and c: "PACKET_get_net_2 p2 = Some (k, p3)"
    and d: "PACKET_get_length_prefixed_2 p3 = Some (cs, p4)"
    and e: "PACKET_get_net_2 p4 = Some (m, p5)"
    and f: "PACKET_get_length_prefixed_2 p5 = Some (es, q)"
    unfolding ech_config_body_def Let_def
    by (auto split: option.splits if_splits prod.splits)
  from a b c d e f show ?thesis
    by (auto dest!: PACKET_get_net_2_shorter PACKET_get_length_prefixed_2_shorter)
qed

text \<open>
  The record loop \<open>while (remaining>not_to_consume)\<close>.  \<open>remaining\<close> is assigned after the
  content length has been read and again at the end of the body; the \<open>continue\<close> of the
  branch for another version jumps to the loop test with the first of these values.
  \<open>ech_content_length-2\<close> is computed in \<open>unsigned int\<close>.
\<close>

function ech_records_loop ::
  "nat \<Rightarrow> nat \<Rightarrow> octets \<Rightarrow> nat \<Rightarrow> ECHConfig list \<Rightarrow> (ECHConfig list \<times> octets) option" where
  "ech_records_loop rrmax not_to_consume pkt remaining te =
     (if remaining > not_to_consume then
        (case PACKET_get_net_2 pkt of
           None \<Rightarrow> None
         | Some (ver, p1) \<Rightarrow>
             (case PACKET_get_net_2 p1 of
                None \<Rightarrow> None
              | Some (ech_content_length, p2) \<Rightarrow>
                  if nat ((int ech_content_length - 2) mod 4294967296) > PACKET_remaining p2 then None
                  else if ver \<noteq> ECH_DRAFT_09_VERSION then
                    (case PACKET_copy_bytes p2 ech_content_length of
                       None \<Rightarrow> None
                     | Some (foo, p3) \<Rightarrow>
                         ech_records_loop rrmax not_to_consume p3 (PACKET_remaining p2) te)
                  else
                    (case ech_config_body rrmax ver p2 of
                       None \<Rightarrow> None
                     | Some (ec, p3) \<Rightarrow>
                         ech_records_loop rrmax not_to_consume p3 (PACKET_remaining p3)
                           (te @ [ec]))))
      else Some (te, pkt))"
  by pat_completeness auto
termination
  by (relation "measure (\<lambda>(m, n, p, r, te). length p)")
     (auto dest!: PACKET_get_net_2_shorter PACKET_copy_bytes_shorter ech_config_body_shorter)

text \<open>
  \<open>ECHConfigs_from_binary(binbuf, binblen, leftover)\<close>: the decoded \<open>ECHConfigs\<close> and the
  value stored in \<open>*leftover\<close>, or \<open>None\<close> for the NULL the source returns on error.
  \<open>rrmax\<close> stands for the macro \<open>ECH_MAX_RRVALUE_LEN\<close> of ech.h, which is not among the
  sources.  The caller owes \<open>binblen\<close> readable octets behind \<open>binbuf\<close>.
\<close>

definition ECHConfigs_from_binary ::
  "nat \<Rightarrow> octets option \<Rightarrow> nat \<Rightarrow> bool \<Rightarrow> (ECHConfigs \<times> int) option" where
  "ECHConfigs_from_binary rrmax binbuf binblen leftover =
     (if binblen < ECH_MIN_ECHCONFIG_LEN then None
      else if binblen \<ge> ECH_MAX_ECHCONFIG_LEN then None
      else if \<not> leftover then None
      else
        (case binbuf of
           None \<Rightarrow> None
         | Some buf \<Rightarrow>
             (case PACKET_get_net_2 (take binblen buf) of
                None \<Rightarrow> None
              | Some (olen, p1) \<Rightarrow>
                  if olen < ECH_MIN_ECHCONFIG_LEN \<or> olen > binblen - 2 then None
                  else
                    let not_to_consume = binblen - olen in
                    (case ech_records_loop rrmax not_to_consume p1 (PACKET_remaining p1) [] of
                       None \<Rightarrow> None
                     | Some (te, p2) \<Rightarrow>
                         let lleftover = int (PACKET_remaining p2) in
                         if lleftover < 0 \<or> lleftover > int binblen then None
                         else
                           Some (\<lparr>encoded_len = binblen, encoded = buf,
                                   nrecs = int (length te), recs = te\<rparr>, lleftover)))))"

section \<open>ECH: the session objects\<close>

text \<open>
  The fields of \<open>SSL_ECH\<close> (ech_local.h), and those fields of \<open>RAW_EXTENSION\<close>,
  \<open>CLIENTHELLO_MSG\<close>, \<open>SSL\<close> and \<open>SSL_CTX\<close> (ssl_local.h, not among the sources) that
  ech.c reads or writes in the functions modelled here.  Handles into the rest of the TLS
  stack (BIOs, the record layer, the state machine, callbacks, keys) are numbers; a
  pointer to an \<open>SSL\<close> is an address in a store of \<open>SSL\<close> objects.  A \<open>PACKET\<close> field is
  \<open>None\<close> when its \<open>curr\<close> pointer is NULL, otherwise its remaining octets.
\<close>

record SSL_ECH =
  cfg :: "ECHConfigs option"
  inner_name :: "string option"
  outer_name :: "string option"
  pemfname :: "string option"
  loadtime :: int
  keyshare :: "nat option"
  dns_alpns :: "string option"
  dns_no_def_alpn :: int

record RAW_EXTENSION =
  data :: "octets option"
  present :: int
  parsed :: int
  raw_type :: nat
  received_order :: nat

record CLIENTHELLO_MSG =
  pre_proc_exts :: "RAW_EXTENSION list option"

type_synonym addr = nat

record SSL =
  ech :: "SSL_ECH list option"
  nechs :: int
  client_version :: nat
  s3_client_random :: octets
  s3_handshake_buffer :: octets
  clienthello :: "CLIENTHELLO_MSG option"
  wbio :: nat
  rbio :: nat
  rlayer :: nat
  rlayer_s :: "addr option"
  init_buf :: nat
  init_msg :: nat
  init_off :: nat
  init_num :: nat
  statem :: nat
  ext_debug_cb :: nat
  ext_debug_arg :: nat
  ext_inner_s :: "addr option"
  ext_outer_s :: "addr option"
  ext_ch_depth :: nat
  ext_etype :: nat
  ext_n_outer_only :: nat
  ext_outer_only :: "nat list"
  ext_encoded_innerch :: "octets option"
  ext_encoded_innerch_len :: nat
  ext_innerch :: "octets option"
  ext_innerch_len :: nat
  ext_ech_attempted :: int
  ext_ech_done :: int
  ext_ech_success :: int

record SSL_CTX =
  ctx_ext_ech :: "SSL_ECH list option"
  ctx_ext_nechs :: int

section \<open>ECH: adding ECHConfigs to a connection or a context\<close>

text \<open>
  The format codes \<open>ECH_FMT_*\<close> are macros of ech.h, which is not among the sources; the
  model names them and keeps every other value of the \<open>int\<close> apart.
\<close>

datatype ech_fmt = ECH_FMT_GUESS | ECH_FMT_BIN | ECH_FMT_B64TXT | ECH_FMT_ASCIIHEX
  | ECH_FMT_HTTPSSVC | ECH_FMT_other int

definition AH_alphabet :: octets where
  "AH_alphabet = map of_char ''0123456789ABCDEFabcdef;''"

definition B64_alphabet :: octets where
  "B64_alphabet =
     map of_char ''ABCDEFGHIJKLMNOPQRSTUVWXYZabcdefghijklmnopqrstuvwxyz0123456789+/=;''"

definition httpssvc_telltale :: octets where
  "httpssvc_telltale = map of_char ''echconfig=''"

text \<open>
  The C string functions: a buffer is read as the string that ends before its first NUL
  octet.  \<open>strstr\<close> yields the rest of the string from the first occurrence on.
\<close>

definition c_string :: "octets \<Rightarrow> octets" where
  "c_string buf = takeWhile (\<lambda>b. b \<noteq> 0) buf"

fun strstr :: "octets \<Rightarrow> octets \<Rightarrow> octets option" where
  "strstr [] needle = (if needle = [] then Some [] else None)"
| "strstr (h # t) needle =
     (if take (length needle) (h # t) = needle then Some (h # t) else strstr t needle)"

definition strspn :: "octets \<Rightarrow> octets \<Rightarrow> nat" where
  "strspn s accept = length (takeWhile (\<lambda>b. b \<in> set accept) s)"

text \<open>\<open>ech_guess_fmt(eklen, rrval, guessedfmt)\<close>: the return value and the format stored.\<close>

definition ech_guess_fmt :: "nat \<Rightarrow> octets option \<Rightarrow> bool \<Rightarrow> int \<times> ech_fmt option" where
  "ech_guess_fmt eklen rrval guessedfmt =
     (if \<not> guessedfmt \<or> eklen \<le> 0 \<or> rrval = None then (0, None)
      else
        let s = c_string (the rrval) in
        if strstr s httpssvc_telltale \<noteq> None then (1, Some ECH_FMT_HTTPSSVC)
        else if eklen \<le> strspn s AH_alphabet then (1, Some ECH_FMT_ASCIIHEX)
        else if eklen \<le> strspn s B64_alphabet then (1, Some ECH_FMT_B64TXT)
        else (1, Some ECH_FMT_BIN))"

text \<open>
  \<open>local_ech_add(ekfmt, eklen, ekval, num_echs, echs)\<close>: the return value and, when the
  function stored them, the array put in \<open>*echs\<close> with the count put in \<open>*num_echs\<close>.
  \<open>rrmax\<close> stands for the macro \<open>ECH_MAX_RRVALUE_LEN\<close> of ech.h.  The second half of the
  function ("Do the various decodes": the HTTPS/SVCB, base64 and ascii-hex decoding
  through OpenSSL and the loop over \<open>ECHConfigs_from_binary\<close>) is the parameter
  \<open>decodes\<close>, applied to the detected format, the value of \<open>rv\<close>, and the input.  It is
  reached only past the sanity checks and the format switch.
\<close>

definition local_ech_add ::
  "nat \<Rightarrow> (ech_fmt \<Rightarrow> int \<Rightarrow> nat \<Rightarrow> octets \<Rightarrow> int \<times> (SSL_ECH list option \<times> int) option)
     \<Rightarrow> ech_fmt \<Rightarrow> nat \<Rightarrow> octets option \<Rightarrow> bool
     \<Rightarrow> int \<times> (SSL_ECH list option \<times> int) option" where
  "local_ech_add rrmax decodes ekfmt eklen ekval num_echs =
     (if eklen = 0 \<or> ekval = None \<or> \<not> num_echs then (0, None)
      else if eklen \<ge> rrmax then (0, None)
      else
        (case ekfmt of
           ECH_FMT_GUESS \<Rightarrow>
             (case ech_guess_fmt eklen ekval True of
                (rv, detfmt) \<Rightarrow>
                  if rv = 0 then (rv, None) else decodes (the detfmt) rv eklen (the ekval))
         | ECH_FMT_other n \<Rightarrow> (0, None)
         | _ \<Rightarrow> decodes ekfmt 0 eklen (the ekval)))"

text \<open>
  \<open>SSL_ech_add\<close> and \<open>SSL_CTX_ech_add\<close>: the return value and the connection or context
  afterwards (\<open>None\<close> for a NULL \<open>con\<close> or \<open>ctx\<close>).  When \<open>local_ech_add\<close> returns 1
  without having stored anything, \<open>echs\<close> is still the NULL it was initialised with and
  \<open>*num_echs\<close> is the caller's value \<open>num0\<close>.
\<close>

definition SSL_ech_add ::
  "nat \<Rightarrow> (ech_fmt \<Rightarrow> int \<Rightarrow> nat \<Rightarrow> octets \<Rightarrow> int \<times> (SSL_ECH list option \<times> int) option)
     \<Rightarrow> SSL option \<Rightarrow> ech_fmt \<Rightarrow> nat \<Rightarrow> octets option \<Rightarrow> int option \<Rightarrow> int \<times> SSL option" where
  "SSL_ech_add rrmax decodes con ekfmt eklen ekval num_echs =
     (case con of
        None \<Rightarrow> (0, None)
      | Some c \<Rightarrow>
          (case local_ech_add rrmax decodes ekfmt eklen ekval (num_echs \<noteq> None) of
             (rv, out) \<Rightarrow>
               if rv \<noteq> 1 then (0, Some c)
               else
                 (case out of
                    None \<Rightarrow> (1, Some (c\<lparr>ech := None, nechs := the num_echs\<rparr>))
                  | Some (echs, n) \<Rightarrow> (1, Some (c\<lparr>ech := echs, nechs := n\<rparr>)))))"

definition SSL_CTX_ech_add ::
  "nat \<Rightarrow> (ech_fmt \<Rightarrow> int \<Rightarrow> nat \<Rightarrow> octets \<Rightarrow> int \<times> (SSL_ECH list option \<times> int) option)
     \<Rightarrow> SSL_CTX option \<Rightarrow> ech_fmt \<Rightarrow> nat \<Rightarrow> octets option \<Rightarrow> int option
     \<Rightarrow> int \<times> SSL_CTX option" where
  "SSL_CTX_ech_add rrmax decodes ctx ekfmt eklen ekval num_echs =
     (case ctx of
        None \<Rightarrow> (0, None)
      | Some c \<Rightarrow>
          (case local_ech_add rrmax decodes ekfmt eklen ekval (num_echs \<noteq> None) of
             (rv, out) \<Rightarrow>
               if rv \<noteq> 1 then (0, Some c)
               else
                 (case out of
                    None \<Rightarrow> (1, Some (c\<lparr>ctx_ext_ech := None, ctx_ext_nechs := the num_echs\<rparr>))
                  | Some (echs, n) \<Rightarrow>
                      (1, Some (c\<lparr>ctx_ext_ech := echs, ctx_ext_nechs := n\<rparr>)))))"

section \<open>ECH: the encoded inner ClientHello\<close>

text \<open>
  Modelled from the spec: the \<open>WPACKET\<close> writers are functions of internal/packet.h and
  crypto/packet.c, which are not among the sources.  A \<open>WPACKET\<close> is the list of octets
  written so far; a value is written in network order and the write fails when the
  value does not fit its width; a sub-packet is its content behind a length of the
  given width, and closing it fails when the content is too long for that width.  The
  buffer grows on demand.
\<close>

definition WPACKET_put_bytes_u8 :: "octets \<Rightarrow> nat \<Rightarrow> octets option" where
  "WPACKET_put_bytes_u8 pkt v = (if v < 256 then Some (pkt @ [v]) else None)"

definition WPACKET_put_bytes_u16 :: "octets \<Rightarrow> nat \<Rightarrow> octets option" where
  "WPACKET_put_bytes_u16 pkt v =
     (if v < 65536 then Some (pkt @ [v div 256, v mod 256]) else None)"

definition WPACKET_put_bytes_u24 :: "octets \<Rightarrow> nat \<Rightarrow> octets option" where
  "WPACKET_put_bytes_u24 pkt v =
     (if v < 16777216 then Some (pkt @ [v div 65536, v div 256 mod 256, v mod 256])
      else None)"

definition WPACKET_memcpy :: "octets \<Rightarrow> octets \<Rightarrow> octets option" where
  "WPACKET_memcpy pkt src = Some (pkt @ src)"

definition WPACKET_sub_memcpy_u16 :: "octets \<Rightarrow> octets \<Rightarrow> octets option" where
  "WPACKET_sub_memcpy_u16 pkt src =
     (case WPACKET_put_bytes_u16 pkt (length src) of
        None \<Rightarrow> None
      | Some p \<Rightarrow> WPACKET_memcpy p src)"

text \<open>
  Modelled from the spec: \<open>TLSEXT_TYPE_outer_extensions\<close> is a macro of tls1.h, which is
  not among the sources; the draft the spec follows gives the \<open>outer_extensions\<close>
  extension the code point 0xfd00.  \<open>SSL3_MT_CLIENT_HELLO\<close> is the handshake message type
  1 and \<open>SSL3_RANDOM_SIZE\<close> is 32.
\<close>

definition TLSEXT_TYPE_outer_extensions :: nat where
  "TLSEXT_TYPE_outer_extensions = 0xfd00"

definition SSL3_MT_CLIENT_HELLO :: nat where "SSL3_MT_CLIENT_HELLO = 1"
definition SSL3_RANDOM_SIZE :: nat where "SSL3_RANDOM_SIZE = 32"

definition ECH_SAME_EXT_ERR :: int where "ECH_SAME_EXT_ERR = 0"
definition ECH_SAME_EXT_DONE :: int where "ECH_SAME_EXT_DONE = 1"
definition ECH_SAME_EXT_CONTINUE :: int where "ECH_SAME_EXT_CONTINUE = 2"

text \<open>The two policy tables, indexed by extension slot (\<open>TLSEXT_IDX_*\<close>).\<close>

definition ech_outer_config :: "int list" where
  "ech_outer_config =
     [0, 0, 1, 1, 1, 1, 0, 0, 0, 0, 0, 0, 0, 0, 0, 0, 0, 0, 0, 0, 0, 0, 0, 0, 0, 0, 0, 0, 0]"

definition ech_outer_indep :: "int list" where
  "ech_outer_indep =
     [0, 1, 0, 0, 0, 0, 0, 0, 0, 1, 0, 0, 0, 0, 0, 0, 0, 0, 0, 1, 0, 0, 0, 0, 0, 0, 0, 0, 0]"

text \<open>The search of \<open>ech_same_ext\<close> for the first raw extension of a type.\<close>

fun find_raw :: "nat \<Rightarrow> RAW_EXTENSION list \<Rightarrow> RAW_EXTENSION option" where
  "find_raw t [] = None"
| "find_raw t (r # rs) = (if raw_type r = t then Some r else find_raw t rs)"

text \<open>
  \<open>ech_same_ext(s, pkt)\<close>.  The two tables are global arrays that are not \<open>const\<close>, so
  they are arguments; \<open>map_ind\<close> is \<open>ech_map_ext_type_to_ind\<close> of extensions.c, which is
  not among the sources and yields a slot index or -1; \<open>inner_ch\<close> is
  \<open>s->ext.inner_s->clienthello\<close>.  \<open>outer_only\<close> is an array of \<open>ECH_OUTERS_MAX\<close>
  entries.  The result is the return value, the session and the packet afterwards.
\<close>

definition ech_same_ext ::
  "int list \<Rightarrow> int list \<Rightarrow> (nat \<Rightarrow> int) \<Rightarrow> SSL \<Rightarrow> CLIENTHELLO_MSG option \<Rightarrow> octets option
     \<Rightarrow> int \<times> SSL \<times> octets option" where
  "ech_same_ext outer_config outer_indep map_ind s inner_ch pkt =
     (if ech s = None then (ECH_SAME_EXT_CONTINUE, s, pkt)
      else if ext_ch_depth s = 0 then (ECH_SAME_EXT_CONTINUE, s, pkt)
      else
        let etype = ext_etype s; nexts = int (length outer_config); tind = map_ind etype in
        if tind = - 1 then (ECH_SAME_EXT_ERR, s, pkt)
        else if tind \<ge> nexts then (ECH_SAME_EXT_ERR, s, pkt)
        else if ext_ch_depth s = 1 \<and> outer_config ! nat tind = 0
          then (ECH_SAME_EXT_CONTINUE, s, pkt)
        else if ext_ch_depth s = 1 \<and> outer_config ! nat tind \<noteq> 0 then
          (if ext_n_outer_only s \<ge> ECH_OUTERS_MAX then (ECH_SAME_EXT_ERR, s, pkt)
           else
             (ECH_SAME_EXT_CONTINUE,
              s\<lparr>ext_outer_only := (ext_outer_only s)[ext_n_outer_only s := etype],
                ext_n_outer_only := ext_n_outer_only s + 1\<rparr>,
              pkt))
        else
          (case inner_ch of
             None \<Rightarrow> (ECH_SAME_EXT_ERR, s, pkt)
           | Some ch \<Rightarrow>
               (case pkt of
                  None \<Rightarrow> (ECH_SAME_EXT_ERR, s, pkt)
                | Some w \<Rightarrow>
                    if outer_indep ! nat tind \<noteq> 0 then (ECH_SAME_EXT_CONTINUE, s, pkt)
                    else
                      (case pre_proc_exts ch of
                         None \<Rightarrow> (ECH_SAME_EXT_ERR, s, pkt)
                       | Some raws \<Rightarrow>
                           (case find_raw etype raws of
                              None \<Rightarrow> (ECH_SAME_EXT_CONTINUE, s, pkt)
                            | Some myext \<Rightarrow>
                                (case (case WPACKET_put_bytes_u16 w etype of
                                         None \<Rightarrow> None
                                       | Some w1 \<Rightarrow>
                                           if data myext \<noteq> None \<and> length (the (data myext)) > 0
                                           then WPACKET_sub_memcpy_u16 w1 (the (data myext))
                                           else WPACKET_put_bytes_u16 w1 0) of
                                   None \<Rightarrow> (ECH_SAME_EXT_ERR, s, pkt)
                                 | Some w2 \<Rightarrow> (ECH_SAME_EXT_DONE, s, Some w2)))))))"

text \<open>
  The loops of \<open>ech_encode_inner\<close>.  \<open>to_be_compressed\<close> is the search of
  \<open>outer_only[0..n_outer_only)\<close> for the type of the extension; \<open>put_outer_only\<close> writes
  the types; \<open>put_outer_extensions\<close> is the block guarded by
  \<open>!compression_done && tobecompressed\<close>; \<open>ech_inner_exts_loop\<close> is the loop over the raw
  extensions, with the flag \<open>compression_done\<close> and the packet, \<open>None\<close> where the source
  goes to \<open>err\<close>.
\<close>

fun to_be_compressed :: "nat \<Rightarrow> nat list \<Rightarrow> bool" where
  "to_be_compressed t [] = False"
| "to_be_compressed t (x # xs) = (if t = x then True else to_be_compressed t xs)"

fun put_outer_only :: "octets \<Rightarrow> nat list \<Rightarrow> octets option" where
  "put_outer_only pkt [] = Some pkt"
| "put_outer_only pkt (x # xs) =
     (case WPACKET_put_bytes_u16 pkt x of None \<Rightarrow> None | Some p \<Rightarrow> put_outer_only p xs)"

definition put_outer_extensions :: "octets \<Rightarrow> nat list \<Rightarrow> octets option" where
  "put_outer_extensions pkt oo =
     (case WPACKET_put_bytes_u16 pkt TLSEXT_TYPE_outer_extensions of
        None \<Rightarrow> None
      | Some p1 \<Rightarrow>
          (case WPACKET_put_bytes_u16 p1 (2 * length oo) of
             None \<Rightarrow> None
           | Some p2 \<Rightarrow> put_outer_only p2 oo))"

definition put_raw_extension :: "octets \<Rightarrow> RAW_EXTENSION \<Rightarrow> octets option" where
  "put_raw_extension pkt r =
     (case WPACKET_put_bytes_u16 pkt (raw_type r) of
        None \<Rightarrow> None
      | Some p \<Rightarrow>
          (case data r of
             Some d \<Rightarrow> WPACKET_sub_memcpy_u16 p d
           | None \<Rightarrow> WPACKET_put_bytes_u16 p 0))"

fun ech_inner_exts_loop ::
  "nat list \<Rightarrow> RAW_EXTENSION list \<Rightarrow> bool \<Rightarrow> octets \<Rightarrow> octets option" where
  "ech_inner_exts_loop oo [] compression_done pkt = Some pkt"
| "ech_inner_exts_loop oo (r # raws) compression_done pkt =
     (if present r = 0 then ech_inner_exts_loop oo raws compression_done pkt
      else
        let tobecompressed = to_be_compressed (raw_type r) oo in
        (case (if \<not> compression_done \<and> tobecompressed then put_outer_extensions pkt oo
               else Some pkt) of
           None \<Rightarrow> None
         | Some p1 \<Rightarrow>
             (case (if \<not> tobecompressed then put_raw_extension p1 r else Some p1) of
                None \<Rightarrow> None
              | Some p2 \<Rightarrow>
                  ech_inner_exts_loop oo raws (compression_done \<or> tobecompressed) p2)))"

text \<open>
  \<open>ech_encode_inner(s)\<close>: the return value and the session afterwards.  \<open>cipher_bytes\<close>
  is what \<open>ssl_cipher_list_to_bytes\<close> (statem_clnt.c) writes, \<open>None\<close> when it fails.
  \<open>ssl_set_handshake_header\<close> writes the message type and opens a sub-packet with a
  three-octet length.  The caller owes a parsed ClientHello in \<open>s->clienthello\<close>: the
  source reads \<open>s->clienthello->legacy_version\<close> without a test of the pointer, so the
  value given here for a session without one stands for a call outside that contract.
\<close>

definition sub_packet_u8 :: "octets \<Rightarrow> octets option" where
  "sub_packet_u8 content =
     do { p \<leftarrow> WPACKET_put_bytes_u8 [] (length content); Some (p @ content) }"

definition sub_packet_u16 :: "octets \<Rightarrow> octets option" where
  "sub_packet_u16 content =
     do { p \<leftarrow> WPACKET_put_bytes_u16 [] (length content); Some (p @ content) }"

definition sub_packet_u24 :: "octets \<Rightarrow> octets option" where
  "sub_packet_u24 content =
     do { p \<leftarrow> WPACKET_put_bytes_u24 [] (length content); Some (p @ content) }"

definition ech_encode_inner_octets :: "octets option \<Rightarrow> SSL \<Rightarrow> octets option" where
  "ech_encode_inner_octets cipher_bytes s =
     do {
       ver \<leftarrow> WPACKET_put_bytes_u16 [] (client_version s);
       rnd \<leftarrow> WPACKET_memcpy ver (take SSL3_RANDOM_SIZE (s3_client_random s));
       sid \<leftarrow> sub_packet_u8 [];
       cb \<leftarrow> cipher_bytes;
       suites \<leftarrow> sub_packet_u16 cb;
       null_method \<leftarrow> WPACKET_put_bytes_u8 [] 0;
       comp \<leftarrow> sub_packet_u8 null_method;
       exts \<leftarrow>
         (case clienthello s of
            None \<Rightarrow> None
          | Some ch \<Rightarrow>
              (case pre_proc_exts ch of
                 None \<Rightarrow> Some []
               | Some raws \<Rightarrow>
                   ech_inner_exts_loop (take (ext_n_outer_only s) (ext_outer_only s)) raws
                     False []));
       extblock \<leftarrow> sub_packet_u16 exts;
       body \<leftarrow> sub_packet_u24 (rnd @ sid @ suites @ comp @ extblock);
       Some (SSL3_MT_CLIENT_HELLO # body)
     }"

definition ech_encode_inner :: "octets option \<Rightarrow> SSL \<Rightarrow> int \<times> SSL" where
  "ech_encode_inner cipher_bytes s =
     (if ech s = None then (0, s)
      else
        (case ech_encode_inner_octets cipher_bytes s of
           None \<Rightarrow> (0, s)
         | Some innerch_full \<Rightarrow>
             (1, s\<lparr>ext_encoded_innerch := Some innerch_full,
                   ext_encoded_innerch_len := length innerch_full\<rparr>)))"

section \<open>ECH: the swap of inner and outer session\<close>

text \<open>
  The store of session objects, and the calls \<open>ech_swaperoo\<close> makes into the rest of the
  TLS stack: \<open>ssl3_init_finished_mac\<close> and \<open>ssl3_finish_mac\<close> (s3_enc.c) and
  \<open>final_server_name\<close> (extensions.c), none of them among the sources.  Each is given the
  session object as it is at the call and yields the call's return value.  Of their
  effects the model keeps the one on the transcript: the first empties the handshake
  buffer of the session, the second appends to it.
\<close>

type_synonym ssl_store = "addr \<Rightarrow> SSL option"

record swap_env =
  ssl3_init_finished_mac :: "SSL \<Rightarrow> int"
  ssl3_finish_mac :: "SSL \<Rightarrow> octets \<Rightarrow> int"
  final_server_name :: "SSL \<Rightarrow> int"

definition store_upd :: "ssl_store \<Rightarrow> addr \<Rightarrow> (SSL \<Rightarrow> SSL) \<Rightarrow> ssl_store" where
  "store_upd h a f = h(a := map_option f (h a))"

text \<open>
  From "Stash inner fields" to the assignment of \<open>statem\<close>: the two objects exchange their
  contents, the links are set, and the object at \<open>s\<close> takes the transport, the record
  layer, the init buffers, the debug callback and the state machine of the old outer.
\<close>

definition swap_fields :: "ssl_store \<Rightarrow> addr \<Rightarrow> addr \<Rightarrow> SSL \<Rightarrow> SSL \<Rightarrow> ssl_store" where
  "swap_fields h s inp tmp_outer tmp_inner =
     (let h1 = h(s := Some tmp_inner);
          h2 = h1(inp := Some tmp_outer);
          h3 = store_upd h2 s (\<lambda>x. x\<lparr>ext_outer_s := Some inp\<rparr>);
          h4 = store_upd h3 s (\<lambda>x. x\<lparr>ext_inner_s := None\<rparr>);
          h5 = store_upd h4 inp (\<lambda>x. x\<lparr>ext_inner_s := Some s\<rparr>);
          h6 = store_upd h5 inp (\<lambda>x. x\<lparr>ext_outer_s := None\<rparr>)
      in store_upd h6 s
           (\<lambda>x. x\<lparr>wbio := wbio tmp_outer, rbio := rbio tmp_outer,
                  rlayer := rlayer tmp_outer, rlayer_s := Some s,
                  init_buf := init_buf tmp_outer, init_msg := init_msg tmp_outer,
                  init_off := init_off tmp_outer, init_num := init_num tmp_outer,
                  ext_debug_cb := ext_debug_cb tmp_outer,
                  ext_debug_arg := ext_debug_arg tmp_outer,
                  statem := statem tmp_outer\<rparr>))"

text \<open>
  "Fix up the transcript": the new transcript buffer computed from the old outer's
  handshake buffer and its \<open>innerch\<close>, or \<open>None\<close> where the source raises the fatal error
  for \<open>outer_chlen>curr_buflen\<close>.  The source reads the three length octets after the
  type octet without a test that the buffer holds them; the definition is meant for
  buffers that are empty, do not start with a ClientHello, or hold four octets or more.
\<close>

definition innerch_octets :: "SSL \<Rightarrow> octets" where
  "innerch_octets x =
     (case ext_innerch x of None \<Rightarrow> [] | Some b \<Rightarrow> take (ext_innerch_len x) b)"

definition new_transcript :: "SSL \<Rightarrow> octets option" where
  "new_transcript tmp_outer =
     (let curr_buf = s3_handshake_buffer tmp_outer; curr_buflen = length curr_buf in
      if curr_buflen > 0 \<and> curr_buf ! 0 = SSL3_MT_CLIENT_HELLO then
        (let outer_chlen = 1 + curr_buf ! 1 * 256 * 256 + curr_buf ! 2 * 256 + curr_buf ! 3 in
         if outer_chlen > curr_buflen then None
         else
           let other_octets = curr_buflen - outer_chlen in
           if other_octets > 0
           then Some (innerch_octets tmp_outer @ take other_octets (drop outer_chlen curr_buf))
           else Some (innerch_octets tmp_outer))
      else Some (innerch_octets tmp_outer))"

text \<open>
  \<open>ech_swaperoo(s)\<close>: the return value and the store afterwards.  The store holds an
  object at every address that is followed.  The source prints the transcript of
  \<open>s\<close> before it tests \<open>s\<close> against NULL, so the first two cases below (no session, no
  object at the address) stand for calls that the source does not survive.
\<close>

definition ech_swaperoo :: "swap_env \<Rightarrow> ssl_store \<Rightarrow> addr option \<Rightarrow> int \<times> ssl_store" where
  "ech_swaperoo env h sp =
     (case sp of
        None \<Rightarrow> (0, h)
      | Some s \<Rightarrow>
      (case h s of
         None \<Rightarrow> (0, h)
       | Some tmp_outer \<Rightarrow>
       (case ext_inner_s tmp_outer of
          None \<Rightarrow> (0, h)
        | Some inp \<Rightarrow>
        (case h inp of
           None \<Rightarrow> (0, h)
         | Some tmp_inner \<Rightarrow>
         (case ext_outer_s tmp_inner of
            None \<Rightarrow> (0, h)
          | Some outp \<Rightarrow>
              if outp \<noteq> s then (0, h)
              else
                let h1 = swap_fields h s inp tmp_outer tmp_inner in
                (case new_transcript tmp_outer of
                   None \<Rightarrow> (0, h1)
                 | Some new_buf \<Rightarrow>
                     if ssl3_init_finished_mac env (the (h1 s)) = 0 then (0, h1)
                     else
                       let h2 = store_upd h1 s (\<lambda>x. x\<lparr>s3_handshake_buffer := []\<rparr>) in
                       if ssl3_finish_mac env (the (h2 s)) new_buf = 0 then (0, h2)
                       else
                         let h3 = store_upd h2 s
                                    (\<lambda>x. x\<lparr>s3_handshake_buffer :=
                                              s3_handshake_buffer x @ new_buf\<rparr>);
                             h4 = store_upd h3 (the (ext_outer_s (the (h3 s))))
                                    (\<lambda>x. x\<lparr>ext_ech_success := 1\<rparr>);
                             h5 = store_upd h4 s (\<lambda>x. x\<lparr>ext_ech_success := 1\<rparr>)
                         in
                         if final_server_name env (the (h5 s)) \<noteq> 1 then
                           (let h6 = store_upd h5 (the (ext_outer_s (the (h5 s))))
                                       (\<lambda>x. x\<lparr>ext_ech_success := 0\<rparr>);
                                h7 = store_upd h6 s (\<lambda>x. x\<lparr>ext_ech_success := 0\<rparr>)
                            in (0, h7))
                         else (1, h5)))))))"

section \<open>Test data and the definitions the statements use\<close>

text \<open>
  Arguments for \<open>hpke_enc\<close> and \<open>hpke_dec\<close> in mode PSK under X25519, HKDF-SHA256 and
  AES-128-GCM, with keys of 32 octets, a PSK of 22 octets and a \<open>pskid\<close> that is the empty
  string (a pointer that is not NULL, to a string of length 0).
\<close>

definition psk_enc_args :: hpke_enc_args where
  "psk_enc_args =
     \<lparr>enc_mode = HPKE_MODE_PSK,
      enc_suite = \<lparr>kem_id = 0x20, kdf_id = 1, aead_id = 1\<rparr>,
      enc_pskid = Some [], enc_psklen = 22, enc_psk = Some (replicate 22 0x5d),
      enc_publen = 32, enc_pub = Some (replicate 32 9), enc_privlen = 0, enc_priv = None,
      enc_clearlen = 1, enc_clear = Some [2], enc_aadlen = 0, enc_aad = None,
      enc_infolen = 0, enc_info = None, enc_senderpublen = Some 1024, enc_senderpub = True,
      enc_cipherlen = Some 1024, enc_cipher = True\<rparr>"

definition psk_dec_args :: hpke_dec_args where
  "psk_dec_args =
     \<lparr>dec_mode = HPKE_MODE_PSK,
      dec_suite = \<lparr>kem_id = 0x20, kdf_id = 1, aead_id = 1\<rparr>,
      dec_pskid = Some [], dec_psklen = 22, dec_psk = Some (replicate 22 0x5d),
      dec_publen = 0, dec_pub = None, dec_privlen = 32, dec_priv = Some (replicate 32 3),
      dec_evppriv = False, dec_enclen = 32, dec_enc = Some (replicate 32 4),
      dec_cipherlen = 17, dec_cipher = Some (replicate 17 0), dec_aadlen = 0, dec_aad = None,
      dec_infolen = 0, dec_info = None, dec_clearlen = Some 1024, dec_clear = True\<rparr>"

text \<open>
  Test data.  \<open>known_record name\<close> is a well-formed draft-09 record with the given public
  name, a 32-octet public key, KEM 0x0020, the one suite (1, 1), maximum name length 0 and
  no extensions; \<open>unknown_record\<close> is a record of version 0xff0a with four octets of
  content; \<open>echconfigs rs\<close> puts the two-octet length in front of the records.
\<close>

definition known_record :: "octets \<Rightarrow> octets" where
  "known_record name =
     [0xff, 0x09, 0, 48 + length name] @ [0, length name] @ name @ [0, 32] @ replicate 32 7
       @ [0, 0x20] @ [0, 4, 0, 1, 0, 1] @ [0, 0] @ [0, 0]"

definition unknown_record :: octets where
  "unknown_record = [0xff, 0x0a, 0, 4, 0xde, 0xad, 0xbe, 0xef]"

definition echconfigs :: "octets \<Rightarrow> octets" where
  "echconfigs rs = [length rs div 256, length rs mod 256] @ rs"

definition parsed_versions :: "(ECHConfigs \<times> int) option \<Rightarrow> (nat list \<times> int) option" where
  "parsed_versions r = map_option (\<lambda>(c, l). (map ec_version (recs c), l)) r"

text \<open>A session object with every field zeroed, as \<open>SSL_new\<close> leaves the ones modelled.\<close>

definition blank_SSL :: SSL where
  "blank_SSL =
     \<lparr>ech = None, nechs = 0, client_version = 0x0303, s3_client_random = replicate 32 0,
      s3_handshake_buffer = [], clienthello = None, wbio = 0, rbio = 0, rlayer = 0,
      rlayer_s = None, init_buf = 0, init_msg = 0, init_off = 0, init_num = 0, statem = 0,
      ext_debug_cb = 0, ext_debug_arg = 0, ext_inner_s = None, ext_outer_s = None,
      ext_ch_depth = 0, ext_etype = 0, ext_n_outer_only = 0,
      ext_outer_only = replicate 10 0, ext_encoded_innerch = None,
      ext_encoded_innerch_len = 0, ext_innerch = None, ext_innerch_len = 0,
      ext_ech_attempted = 0, ext_ech_done = 0, ext_ech_success = 0\<rparr>"

text \<open>
  The wire form of an extension (type, length, value, each number in two octets), of a
  raw extension of the ClientHello, and of the \<open>outer_extensions\<close> extension that lists
  the types \<open>oo\<close>.
\<close>

definition u16 :: "nat \<Rightarrow> octets" where
  "u16 v = [v div 256, v mod 256]"

definition u24 :: "nat \<Rightarrow> octets" where
  "u24 v = [v div 65536, v div 256 mod 256, v mod 256]"

definition ext_octets :: "nat \<Rightarrow> octets \<Rightarrow> octets" where
  "ext_octets t body = u16 t @ u16 (length body) @ body"

definition raw_body :: "RAW_EXTENSION \<Rightarrow> octets" where
  "raw_body r = (case data r of None \<Rightarrow> [] | Some d \<Rightarrow> d)"

definition raw_octets :: "RAW_EXTENSION \<Rightarrow> octets" where
  "raw_octets r = ext_octets (raw_type r) (raw_body r)"

definition outer_extensions_octets :: "nat list \<Rightarrow> octets" where
  "outer_extensions_octets oo = ext_octets TLSEXT_TYPE_outer_extensions (concat (map u16 oo))"

text \<open>
  The amended claim in its own words: of the extensions that are present, those before
  the first compressed one are written as they are; in the place of the first compressed
  one stands the one \<open>outer_extensions\<close> extension; after it come the later extensions
  that are not compressed.  With nothing compressed every present extension is written
  and there is no \<open>outer_extensions\<close>.
\<close>

definition inner_exts_plan :: "nat list \<Rightarrow> RAW_EXTENSION list \<Rightarrow> octets" where
  "inner_exts_plan oo raws =
     (let ps = filter (\<lambda>r. present r \<noteq> 0) raws;
          kept = (\<lambda>r. raw_type r \<notin> set oo)
      in concat (map raw_octets (takeWhile kept ps))
         @ (if dropWhile kept ps = [] then []
            else outer_extensions_octets oo
                 @ concat (map raw_octets (filter kept (dropWhile kept ps)))))"

definition client_hello_inner_octets :: "nat \<Rightarrow> octets \<Rightarrow> octets \<Rightarrow> octets \<Rightarrow> octets" where
  "client_hello_inner_octets ver rnd cb exts =
     (let body = u16 ver @ rnd @ [0] @ u16 (length cb) @ cb @ [1, 0] @ u16 (length exts) @ exts
      in SSL3_MT_CLIENT_HELLO # u24 (length body) @ body)"

text \<open>
  Reading the extensions back out of a ClientHello message, after the layout in the
  comment of \<open>ech_encode_inner\<close>: message type and length (4 octets), version (2),
  random (32), session id, cipher suites, compression methods, extensions.
\<close>

function read_extensions :: "octets \<Rightarrow> (nat \<times> octets) list option" where
  "read_extensions p =
     (if PACKET_remaining p = 0 then Some []
      else
        (case PACKET_get_net_2 p of
           None \<Rightarrow> None
         | Some (t, p1) \<Rightarrow>
             (case PACKET_get_length_prefixed_2 p1 of
                None \<Rightarrow> None
              | Some (body, p2) \<Rightarrow> map_option ((#) (t, body)) (read_extensions p2))))"
  by pat_completeness auto

termination
  by (relation "measure length")
     (auto dest!: PACKET_get_net_2_shorter PACKET_get_length_prefixed_2_shorter)

definition skip_prefixed_1 :: "octets \<Rightarrow> octets option" where
  "skip_prefixed_1 p =
     (case p of [] \<Rightarrow> None | n # t \<Rightarrow> if length t < n then None else Some (drop n t))"

definition client_hello_extensions :: "octets \<Rightarrow> (nat \<times> octets) list option" where
  "client_hello_extensions msg =
     do {
       p1 \<leftarrow> (if length msg < 38 then None else Some (drop 38 msg));
       p2 \<leftarrow> skip_prefixed_1 p1;
       (suites, p3) \<leftarrow> PACKET_get_length_prefixed_2 p2;
       p4 \<leftarrow> skip_prefixed_1 p3;
       (exts, p5) \<leftarrow> PACKET_get_length_prefixed_2 p4;
       read_extensions exts
     }"

text \<open>
  The scenario S4: an inner ClientHello with the extensions supported_groups (10),
  key_share (51), signature_algorithms (13) and server_name (0), of which
  supported_groups and signature_algorithms have been recorded in \<open>outer_only\<close>.
\<close>

definition s4_raw :: "nat \<Rightarrow> octets \<Rightarrow> RAW_EXTENSION" where
  "s4_raw t d = \<lparr>data = Some d, present = 1, parsed = 0, raw_type = t, received_order = 0\<rparr>"

definition s4_raws :: "RAW_EXTENSION list" where
  "s4_raws =
     [s4_raw 10 [0, 2, 0, 29], s4_raw 51 [0, 1, 2], s4_raw 13 [0, 2, 4, 3],
      s4_raw 0 [0, 3, 0, 0, 0]]"

definition s4_session :: SSL where
  "s4_session =
     blank_SSL\<lparr>ech := Some [], clienthello := Some \<lparr>pre_proc_exts = Some s4_raws\<rparr>,
       ext_ch_depth := 1, ext_n_outer_only := 2,
       ext_outer_only := [10, 13, 0, 0, 0, 0, 0, 0, 0, 0]\<rparr>"

text \<open>
  The policy of S4 as a table over the extension slots, with the slots of
  supported_groups (5) and signature_algorithms (16) marked, and the slots of the four
  extension types.
\<close>

definition s4_policy :: "int list" where
  "s4_policy = (replicate 29 0)[5 := 1, 16 := 1]"

definition s4_map_ind :: "nat \<Rightarrow> int" where
  "s4_map_ind t = (if t = 0 then 1 else if t = 10 then 5 else if t = 13 then 16
                   else if t = 51 then 19 else - 1)"

definition s4_encoded :: octets where
  "s4_encoded =
     [1, 0, 0, 67, 3, 3] @ replicate 32 0 @ [0, 0, 2, 0x13, 1, 1, 0]
       @ [0, 24]
       @ [0xfd, 0, 0, 4, 0, 10, 0, 13]
       @ [0, 51, 0, 3, 0, 1, 2]
       @ [0, 0, 0, 5, 0, 3, 0, 0, 0]"

text \<open>
  A server after a successful decryption: the outer session at address 1, which has
  attempted ECH and holds the outer ClientHello followed by two more octets in its
  handshake buffer, linked to the inner session at address 2.  Neither has its \<open>ech_done\<close>
  flag set.  In \<open>env_accept\<close> every call into the TLS stack succeeds; in
  \<open>env_reject_sni\<close> the server-name selection refuses the inner name.
\<close>

definition swap_outer :: SSL where
  "swap_outer =
     blank_SSL\<lparr>ech := Some [], ext_inner_s := Some 2, ext_ech_attempted := 1, wbio := 7,
       rbio := 8, s3_handshake_buffer := [1, 0, 0, 2, 3, 3, 2, 0],
       ext_innerch := Some [1, 0, 0, 1, 9], ext_innerch_len := 5\<rparr>"

definition swap_inner :: SSL where
  "swap_inner = blank_SSL\<lparr>ext_outer_s := Some 1, ext_ch_depth := 1, ext_ech_attempted := 1\<rparr>"

definition swap_store :: ssl_store where
  "swap_store = (\<lambda>a. None)(1 := Some swap_outer, 2 := Some swap_inner)"

definition env_accept :: swap_env where
  "env_accept =
     \<lparr>ssl3_init_finished_mac = (\<lambda>x. 1), ssl3_finish_mac = (\<lambda>x b. 1),
      final_server_name = (\<lambda>x. 1)\<rparr>"

definition env_reject_sni :: swap_env where
  "env_reject_sni = env_accept\<lparr>final_server_name := (\<lambda>x. 0)\<rparr>"

definition flags_at :: "ssl_store \<Rightarrow> addr \<Rightarrow> (int \<times> int \<times> int) option" where
  "flags_at h a =
     map_option (\<lambda>x. (ext_ech_attempted x, ext_ech_done x, ext_ech_success x)) (h a)"

section \<open>Properties\<close>

subsection \<open>Evaluation of the models on literals\<close>

lemmas hpke_ids = HPKE_KEM_ID_P256_def HPKE_KEM_ID_P384_def HPKE_KEM_ID_P521_def
  HPKE_KEM_ID_25519_def HPKE_KEM_ID_448_def HPKE_KDF_ID_HKDF_SHA256_def
  HPKE_KDF_ID_HKDF_SHA384_def HPKE_KDF_ID_HKDF_SHA512_def HPKE_AEAD_ID_AES_GCM_128_def
  HPKE_AEAD_ID_AES_GCM_256_def HPKE_AEAD_ID_CHACHA_POLY1305_def

lemmas hpke_modes = HPKE_MODE_BASE_def HPKE_MODE_PSK_def HPKE_MODE_AUTH_def
  HPKE_MODE_PSKAUTH_def

lemmas pkt_defs = PACKET_remaining_def PACKET_get_net_2_def PACKET_copy_bytes_def
  PACKET_get_length_prefixed_2_def

lemmas ech_consts = ECH_MIN_ECHCONFIG_LEN_def ECH_MAX_ECHCONFIG_LEN_def ECH_CIPHER_LEN_def
  ECH_DRAFT_09_VERSION_def TLSEXT_MAXLEN_host_name_def

subsection \<open>The suite check\<close>

lemma kem_loop_tab:
  "kem_loop k hpke_kem_tab = (if k \<in> {0x10, 0x11, 0x12, 0x20, 0x21} then 1 else 0)"
  by (simp add: hpke_kem_tab_def kem_blank_def kem_row_def hpke_ids)

lemma kdf_loop_tab: "kdf_loop k hpke_kdf_tab = (if k \<in> {1, 2, 3} then 1 else 0)"
  by (simp add: hpke_kdf_tab_def kdf_row_def hpke_ids)

lemma aead_loop_tab: "aead_loop k hpke_aead_tab = (if k \<in> {1, 2, 3} then 1 else 0)"
  by (simp add: hpke_aead_tab_def aead_row_def hpke_ids)

lemma kem_loop_populated:
  "kem_loop k tab = 1 \<longleftrightarrow> (\<exists>r \<in> set tab. kem_info_id r = k \<and> kem_hash_init_func r \<noteq> None)"
  by (induction tab) auto

lemma kdf_loop_populated:
  "kdf_loop k tab = 1 \<longleftrightarrow> (\<exists>r \<in> set tab. kdf_info_id r = k \<and> kdf_hash_init_func r \<noteq> None)"
  by (induction tab) auto

lemma aead_loop_populated:
  "aead_loop k tab = 1 \<longleftrightarrow> (\<exists>r \<in> set tab. aead_info_id r = k \<and> aead_init_func r \<noteq> None)"
  by (induction tab) auto

text \<open>
  C8.  \<open>hpke_suite_check\<close> returns 1 exactly when each of the three ids is the id of a
  row of its table that carries an algorithm (a row that is not a sentinel), that is,
  exactly for the suites whose KEM id is one of 0x0010, 0x0011, 0x0012, 0x0020, 0x0021,
  whose KDF id is one of 1, 2, 3 and whose AEAD id is one of 1, 2, 3.
\<close>

theorem hpke_suite_check_iff:
  "(hpke_suite_check suite = 1 \<longleftrightarrow>
      (\<exists>r \<in> set hpke_kem_tab. kem_info_id r = kem_id suite \<and> kem_hash_init_func r \<noteq> None)
      \<and> (\<exists>r \<in> set hpke_kdf_tab. kdf_info_id r = kdf_id suite \<and> kdf_hash_init_func r \<noteq> None)
      \<and> (\<exists>r \<in> set hpke_aead_tab. aead_info_id r = aead_id suite \<and> aead_init_func r \<noteq> None))
   \<and> (hpke_suite_check suite = 1 \<longleftrightarrow>
      kem_id suite \<in> {0x0010, 0x0011, 0x0012, 0x0020, 0x0021}
      \<and> kdf_id suite \<in> {0x0001, 0x0002, 0x0003}
      \<and> aead_id suite \<in> {0x0001, 0x0002, 0x0003})"
proof
  show "hpke_suite_check suite = 1 \<longleftrightarrow>
      (\<exists>r \<in> set hpke_kem_tab. kem_info_id r = kem_id suite \<and> kem_hash_init_func r \<noteq> None)
      \<and> (\<exists>r \<in> set hpke_kdf_tab. kdf_info_id r = kdf_id suite \<and> kdf_hash_init_func r \<noteq> None)
      \<and> (\<exists>r \<in> set hpke_aead_tab. aead_info_id r = aead_id suite \<and> aead_init_func r \<noteq> None)"
    unfolding hpke_suite_check_def Let_def
    by (simp only: kem_loop_populated [symmetric] kdf_loop_populated [symmetric]
        aead_loop_populated [symmetric]) simp
  show "hpke_suite_check suite = 1 \<longleftrightarrow>
      kem_id suite \<in> {0x0010, 0x0011, 0x0012, 0x0020, 0x0021}
      \<and> kdf_id suite \<in> {0x0001, 0x0002, 0x0003}
      \<and> aead_id suite \<in> {0x0001, 0x0002, 0x0003}"
    unfolding hpke_suite_check_def Let_def kem_loop_tab kdf_loop_tab aead_loop_tab
    by simp
qed

theorem hpke_suite_check_iff_witness:
  "hpke_suite_check \<lparr>kem_id = 0x20, kdf_id = 1, aead_id = 1\<rparr> = 1
   \<and> hpke_suite_check \<lparr>kem_id = 0x13, kdf_id = 1, aead_id = 1\<rparr> \<noteq> 1"
  using hpke_suite_check_iff [THEN conjunct2, of "\<lparr>kem_id = 0x20, kdf_id = 1, aead_id = 1\<rparr>"]
    hpke_suite_check_iff [THEN conjunct2, of "\<lparr>kem_id = 0x13, kdf_id = 1, aead_id = 1\<rparr>"]
  by simp

text \<open>A supported and an unsupported suite, evaluated.\<close>

lemma hpke_suite_check_examples:
  "hpke_suite_check \<lparr>kem_id = 0x20, kdf_id = 1, aead_id = 1\<rparr> = 1"
  "hpke_suite_check \<lparr>kem_id = 0x13, kdf_id = 1, aead_id = 1\<rparr> = 0"
  "hpke_suite_check \<lparr>kem_id = 0x20, kdf_id = 0, aead_id = 1\<rparr> = 0"
  by (simp_all add: hpke_suite_check_def kem_loop_tab kdf_loop_tab aead_loop_tab)

subsection \<open>The ascii-hex decoder\<close>

text \<open>
  C6.  The three characters \<open>abc\<close> are an ascii-hex input with an odd number of nibbles.
  \<open>hpke_ah_decode\<close> returns 1 on them and hands back the one octet 0xab: its parity test
  is \<open>ahlen%1\<close>, which is 0 for every length.
\<close>

theorem hpke_ah_decode_odd_length_accepted:
  "hpke_ah_decode 3 (Some ''abc'') True True = (1, Some [0xab])"
  by (simp add: hpke_ah_decode_def HPKE_A2B_def upt_rec)

theorem hpke_ah_decode_odd_length_accepted_witness:
  "fst (hpke_ah_decode 3 (Some ''abc'') True True) = 1"
  using hpke_ah_decode_odd_length_accepted by simp

text \<open>The even-length input \<open>abcd\<close> for comparison, and the general shape of the result.\<close>

lemma hpke_ah_decode_even_example:
  "hpke_ah_decode 4 (Some ''abcd'') True True = (1, Some [0xab, 0xcd])"
  by (simp add: hpke_ah_decode_def HPKE_A2B_def upt_rec)

lemma hpke_ah_decode_accepts_any_length:
  "2 \<le> ahlen \<Longrightarrow> fst (hpke_ah_decode ahlen (Some ah) True True) = 1"
  by (auto simp: hpke_ah_decode_def Let_def)

subsection \<open>The PSK precondition\<close>

text \<open>
  What the check does refuse: in mode PSK or PSK+Auth a NULL \<open>pskid\<close>, a NULL \<open>psk\<close> or a
  \<open>psklen\<close> of 0 makes \<open>hpke_enc\<close> and \<open>hpke_dec\<close> return the line of the failed test of
  \<open>hpke_psk_check\<close>, before any other step.
\<close>

lemma hpke_psk_check_null_refused:
  assumes "mode = HPKE_MODE_PSK \<or> mode = HPKE_MODE_PSKAUTH"
    and "pskid = None \<or> psk = None \<or> psklen = 0"
    and "enc_mode a = mode" and "enc_pskid a = pskid" and "enc_psk a = psk"
    and "enc_psklen a = psklen"
    and "dec_mode d = mode" and "dec_pskid d = pskid" and "dec_psk d = psk"
    and "dec_psklen d = psklen"
  shows "hpke_psk_check mode pskid psklen psk \<in> {1274, 1275, 1276}
         \<and> hpke_enc steps a = hpke_psk_check mode pskid psklen psk
         \<and> hpke_dec steps' d = hpke_psk_check mode pskid psklen psk"
  using assms
  by (auto simp: hpke_psk_check_def hpke_enc_def hpke_dec_def hpke_mode_check_def hpke_modes
      Let_def)

text \<open>
  The check itself returns 1 in mode Base or Auth whatever the three PSK parameters are.
  The steps of \<open>hpke_enc\<close> and \<open>hpke_dec\<close> that follow the checks are still given them.
\<close>

lemma hpke_psk_check_base_auth:
  "mode = HPKE_MODE_BASE \<or> mode = HPKE_MODE_AUTH \<Longrightarrow> hpke_psk_check mode pskid psklen psk = 1"
  by (auto simp: hpke_psk_check_def)

text \<open>
  C9.  In mode PSK, with a PSK of 22 octets, an empty \<open>pskid\<close> string is not refused:
  \<open>hpke_psk_check\<close> returns 1, and every check at the entry of \<open>hpke_enc\<close> and of
  \<open>hpke_dec\<close> passes, so that both go on to their steps (key import, the KEM, the key
  schedule, the AEAD) and return whatever these return; no PSK error is raised.  The
  check tests the \<open>pskid\<close> pointer against NULL and never the length of the string,
  where for the PSK it tests both the pointer and \<open>psklen\<close>.
\<close>

theorem hpke_psk_check_empty_pskid_accepted:
  "hpke_psk_check HPKE_MODE_PSK (Some []) 22 (Some (replicate 22 0x5d)) = 1
   \<and> hpke_enc steps psk_enc_args = steps psk_enc_args
   \<and> hpke_dec steps' psk_dec_args = steps' psk_dec_args"
  by (simp add: hpke_psk_check_def hpke_enc_def hpke_dec_def hpke_mode_check_def
      psk_enc_args_def psk_dec_args_def hpke_modes hpke_suite_check_def
      kem_loop_tab kdf_loop_tab aead_loop_tab)

theorem hpke_psk_check_empty_pskid_accepted_witness:
  "hpke_psk_check HPKE_MODE_PSK (Some []) 22 (Some (replicate 22 0x5d)) = 1"
  by (rule hpke_psk_check_empty_pskid_accepted [THEN conjunct1])

text \<open>The same call with a NULL \<open>pskid\<close> is refused at line 1274.\<close>

lemma hpke_psk_check_null_pskid_example:
  "hpke_psk_check HPKE_MODE_PSK None 22 (Some (replicate 22 0x5d)) = 1274
   \<and> hpke_enc steps (psk_enc_args\<lparr>enc_pskid := None\<rparr>) = 1274
   \<and> hpke_dec steps' (psk_dec_args\<lparr>dec_pskid := None\<rparr>) = 1274"
  by (simp add: hpke_psk_check_def hpke_enc_def hpke_dec_def hpke_mode_check_def
      psk_enc_args_def psk_dec_args_def hpke_modes)

subsection \<open>Reading ECHConfigs\<close>

lemmas ech_test_data = known_record_def unknown_record_def echconfigs_def parsed_versions_def

lemmas ech_parse_eval = ECHConfigs_from_binary_def ech_config_body_def pkt_defs ech_consts
  Let_def

text \<open>
  C3.  A well-formed list of 62 octets whose second and last record has the unknown
  version 0xff0a makes \<open>ECHConfigs_from_binary\<close> return NULL, although its first record
  is a good draft-09 record.  The same two records in the other order parse, and yield
  the draft-09 record.
\<close>

theorem ECHConfigs_from_binary_unknown_version_last:
  "ECHConfigs_from_binary rrmax
       (Some (echconfigs (known_record [97, 98] @ unknown_record))) 64 True = None
   \<and> parsed_versions (ECHConfigs_from_binary rrmax
       (Some (echconfigs (unknown_record @ known_record [97, 98]))) 64 True)
     = Some ([0xff09], 0)"
  by (simp add: ech_test_data ech_parse_eval)

theorem ECHConfigs_from_binary_unknown_version_last_witness:
  "ECHConfigs_from_binary 2000
       (Some (echconfigs (known_record [97, 98] @ unknown_record))) 64 True = None"
  by (rule ECHConfigs_from_binary_unknown_version_last [THEN conjunct1])

text \<open>
  C7.  A draft-09 record that is well-formed throughout and whose public name is the one
  octet \<open>a\<close> is refused: \<open>ECHConfigs_from_binary\<close> returns NULL.  With the two octets
  \<open>ab\<close> the same record is accepted.  The test in the source is \<open>public_name_len<=1\<close>.
\<close>

theorem ECHConfigs_from_binary_public_name_of_one_octet:
  "ECHConfigs_from_binary rrmax (Some (echconfigs (known_record [97]))) 55 True = None
   \<and> parsed_versions (ECHConfigs_from_binary rrmax
        (Some (echconfigs (known_record [97, 98]))) 56 True) = Some ([0xff09], 0)"
  by (simp add: ech_test_data ech_parse_eval)

theorem ECHConfigs_from_binary_public_name_of_one_octet_witness:
  "ECHConfigs_from_binary 2000 (Some (echconfigs (known_record [97]))) 55 True = None"
  by (rule ECHConfigs_from_binary_public_name_of_one_octet [THEN conjunct1])

text \<open>
  In general: a draft-09 record whose public name has fewer than two or more than 255
  octets is refused, whatever follows the name.
\<close>

lemma ech_config_body_public_name_refused:
  assumes "PACKET_get_length_prefixed_2 p = Some (name, p1)"
    and "length name \<le> 1 \<or> length name > 255"
  shows "ech_config_body rrmax ver p = None"
  using assms
  by (simp add: ech_config_body_def PACKET_remaining_def TLSEXT_MAXLEN_host_name_def Let_def)

text \<open>
  In general: when the record loop meets a record of another version that ends the
  packet and whose content is longer than \<open>not_to_consume\<close> octets, it fails, whatever it
  has decoded before.
\<close>

lemma ech_records_loop_unknown_version_last:
  assumes "not_to_consume < remaining"
    and "PACKET_get_net_2 pkt = Some (ver, p1)" and "ver \<noteq> ECH_DRAFT_09_VERSION"
    and "PACKET_get_net_2 p1 = Some (len, p2)" and "length p2 = len"
    and "2 \<le> len" and "len < 65536" and "not_to_consume < len"
  shows "ech_records_loop rrmax not_to_consume pkt remaining te = None"
proof -
  have m: "nat ((int len - 2) mod 4294967296) = len - 2"
    using assms(6,7) by (simp add: nat_diff_distrib)
  have c: "PACKET_copy_bytes p2 len = Some (p2, [])"
    using assms(5) by (simp add: PACKET_copy_bytes_def PACKET_remaining_def)
  have e: "ech_records_loop rrmax not_to_consume [] len te = None"
    using assms(8) by (simp add: PACKET_get_net_2_def PACKET_remaining_def)
  show ?thesis
    using assms(1-5)
    by (subst ech_records_loop.simps)
       (simp add: m c e PACKET_remaining_def del: ech_records_loop.simps)
qed

subsection \<open>AEAD open on a short ciphertext\<close>

text \<open>
  C5.  \<open>hpke_aead_dec\<close> is given a ciphertext of three octets, shorter than the tag of 16,
  under AES-128-GCM.  It raises no length error: it makes every EVP call of a decryption.
  \<open>EVP_DecryptUpdate\<close> is handed the length \<open>cipherlen-taglen\<close>, which has wrapped round
  in \<open>size_t\<close> and arrives as \<open>-13\<close>, and the tag pointer \<open>cipher+cipherlen-taglen\<close>
  lies 13 octets before the buffer.  With EVP calls that return 1 the function returns 1.
\<close>

theorem hpke_aead_dec_short_ciphertext:
  "hpke_aead_dec evp_recorder \<lparr>kem_id = 0x20, kdf_id = 1, aead_id = 1\<rparr>
       (replicate 16 0) 16 (replicate 12 0) 12 None 0 [1, 2, 3] 3 1024
     = (1, Some ([], 0),
        Some [Call_DecryptInit_ex_cipher EVP_aes_128_gcm, Call_SET_IVLEN 12,
              Call_DecryptInit_ex_key_iv (replicate 16 0) (replicate 12 0),
              Call_DecryptUpdate [1, 2, 3] (- 13), Call_SET_TAG 16 [1, 2, 3] (- 13),
              Call_DecryptFinal_ex])"
  by (simp add: hpke_aead_dec_def evp_recorder_def hpke_aead_tab_def aead_row_def hpke_ids
      size_t_to_int_def size_t_minus_def int_to_size_t_def Let_def)

theorem hpke_aead_dec_short_ciphertext_witness:
  "fst (hpke_aead_dec evp_recorder \<lparr>kem_id = 0x20, kdf_id = 1, aead_id = 1\<rparr>
       (replicate 16 0) 16 (replicate 12 0) 12 None 0 [1, 2, 3] 3 1024) = 1"
  using hpke_aead_dec_short_ciphertext by simp

text \<open>
  Whatever the EVP interface is, a ciphertext shorter than the tag (and not empty) gets as
  far as \<open>EVP_DecryptUpdate\<close> when the calls before it return 1, and what the function
  returns is then decided by the EVP calls alone.
\<close>

lemma hpke_aead_dec_no_length_check:
  assumes "aead_id suite \<in> {1, 2, 3}" and "0 < cipherlen" and "cipherlen < 16"
    and "EVP_CIPHER_CTX_new evp = Some c0"
    and "EVP_DecryptInit_ex_cipher evp c0 (the (aead_init_func (hpke_aead_tab ! unat (aead_id suite)))) = (1, c1)"
    and "EVP_CTRL_GCM_SET_IVLEN evp c1 (size_t_to_int ivlen) = (1, c2)"
    and "EVP_DecryptInit_ex_key_iv evp c2 key iv = (1, c3)"
    and "EVP_DecryptUpdate evp c3 cipher (int cipherlen - 16) = (r5, c5, plaintext, len)"
    and "r5 \<noteq> 1"
  shows "hpke_aead_dec evp suite key keylen iv ivlen None 0 cipher cipherlen plainlen
           = (477, None, Some c5)"
proof -
  have tl: "taglen (hpke_aead_tab ! unat (aead_id suite)) = 16"
    and f: "aead_init_func (hpke_aead_tab ! unat (aead_id suite)) \<noteq> None"
    using assms(1) by (auto simp: hpke_aead_tab_def aead_row_def hpke_ids)
  define x where "x = int cipherlen - 16"
  have x: "- 16 < x" "x < 0"
    using assms(2,3) by (simp_all add: x_def)
  have "x mod 18446744073709551616 = (x + 18446744073709551616) mod 18446744073709551616"
    by simp
  also have "\<dots> = x + 18446744073709551616"
    using x by (intro mod_pos_pos_trivial) simp_all
  finally have a: "x mod 18446744073709551616 = x + 18446744073709551616" .
  have "(x + 18446744073709551616) mod 4294967296
          = (x + 4294967296 + 4294967296 * 4294967295) mod 4294967296"
    by (simp add: add.commute)
  also have "\<dots> = (x + 4294967296) mod 4294967296"
    by (rule mod_mult_self2)
  also have "\<dots> = x + 4294967296"
    using x by (intro mod_pos_pos_trivial) simp_all
  finally have b: "(x + 18446744073709551616) mod 4294967296 = x + 4294967296" .
  have w: "size_t_to_int (size_t_minus cipherlen 16) = int cipherlen - 16"
    using x a b by (simp add: size_t_to_int_def size_t_minus_def Let_def x_def [symmetric])
  from f obtain enc where enc: "aead_init_func (hpke_aead_tab ! unat (aead_id suite)) = Some enc"
    by auto
  from assms(2,4-) show ?thesis
    by (simp add: hpke_aead_dec_def Let_def tl w enc)
qed

subsection \<open>Adding ECHConfigs: the length guard\<close>

text \<open>
  C10.  Whatever the format argument, the input buffer, the count pointer and the decoding
  stage are, \<open>SSL_ech_add\<close> and \<open>SSL_CTX_ech_add\<close> return 0 for an input length that is 0
  or at least \<open>ECH_MAX_RRVALUE_LEN\<close>, and leave the connection and the context as they
  were.  The result does not depend on the decoding stage, which is never reached.
\<close>

theorem ech_add_rejects_bad_length:
  assumes "eklen = 0 \<or> eklen \<ge> rrmax"
  shows "SSL_ech_add rrmax decodes con ekfmt eklen ekval num_echs = (0, con)
         \<and> SSL_CTX_ech_add rrmax decodes ctx ekfmt eklen ekval num_echs = (0, ctx)
         \<and> local_ech_add rrmax decodes ekfmt eklen ekval num_echs_given = (0, None)"
proof -
  have l: "local_ech_add rrmax decodes ekfmt eklen ekval b = (0, None)" for b
    using assms by (auto simp: local_ech_add_def)
  show ?thesis
    by (simp add: SSL_ech_add_def SSL_CTX_ech_add_def l split: option.splits)
qed

theorem ech_add_rejects_bad_length_witness:
  "SSL_ech_add 2000 (\<lambda>f rv n v. (1, Some (Some [], 0))) (Some blank_SSL) ECH_FMT_GUESS 0
       (Some []) (Some 0) = (0, Some blank_SSL)
   \<and> SSL_CTX_ech_add 2000 (\<lambda>f rv n v. (1, Some (Some [], 0)))
       (Some \<lparr>ctx_ext_ech = None, ctx_ext_nechs = 0\<rparr>) ECH_FMT_BIN 2000
       (Some (replicate 2000 65)) (Some 0) = (0, Some \<lparr>ctx_ext_ech = None, ctx_ext_nechs = 0\<rparr>)"
  using ech_add_rejects_bad_length [of 0 2000 "\<lambda>f rv n v. (1, Some (Some [], 0))"
      "Some blank_SSL" ECH_FMT_GUESS "Some []" "Some 0"]
    ech_add_rejects_bad_length [of 2000 2000 "\<lambda>f rv n v. (1, Some (Some [], 0))" _ ECH_FMT_BIN
      "Some (replicate 2000 65)" "Some 0" "Some \<lparr>ctx_ext_ech = None, ctx_ext_nechs = 0\<rparr>"]
  by simp

text \<open>
  For comparison: a length inside the bounds reaches the decoding stage, and the result
  is then stored.
\<close>

lemma SSL_ech_add_in_range_example:
  "SSL_ech_add 2000 (\<lambda>f rv n v. (1, Some (Some [], 0))) (Some blank_SSL) ECH_FMT_BIN 3
       (Some [1, 2, 3]) (Some 5) = (1, Some (blank_SSL\<lparr>ech := Some [], nechs := 0\<rparr>))"
  by (simp add: SSL_ech_add_def local_ech_add_def)

subsection \<open>The encoded inner ClientHello\<close>

lemma to_be_compressed_iff: "to_be_compressed t oo \<longleftrightarrow> t \<in> set oo"
  by (induction oo) auto

lemma put_outer_only_ok:
  "\<forall>t \<in> set oo. t < 65536 \<Longrightarrow> put_outer_only pkt oo = Some (pkt @ concat (map u16 oo))"
  by (induction oo arbitrary: pkt) (auto simp: WPACKET_put_bytes_u16_def u16_def)

lemma length_concat_u16: "length (concat (map u16 oo)) = 2 * length oo"
  by (induction oo) (auto simp: u16_def)

lemma put_outer_extensions_ok:
  assumes "\<forall>t \<in> set oo. t < 65536" and "2 * length oo < 65536"
  shows "put_outer_extensions pkt oo = Some (pkt @ outer_extensions_octets oo)"
  using assms
  by (simp add: put_outer_extensions_def outer_extensions_octets_def ext_octets_def
      WPACKET_put_bytes_u16_def TLSEXT_TYPE_outer_extensions_def put_outer_only_ok
      length_concat_u16 u16_def)

lemma put_raw_extension_ok:
  assumes "raw_type r < 65536" and "length (raw_body r) < 65536"
  shows "put_raw_extension pkt r = Some (pkt @ raw_octets r)"
  using assms
  by (auto simp: put_raw_extension_def raw_octets_def raw_body_def ext_octets_def u16_def
      WPACKET_put_bytes_u16_def WPACKET_sub_memcpy_u16_def WPACKET_memcpy_def
      split: option.splits)

lemma ech_inner_exts_loop_done:
  assumes "\<forall>r \<in> set raws. raw_type r < 65536 \<and> length (raw_body r) < 65536"
  shows "ech_inner_exts_loop oo raws True pkt =
           Some (pkt @ concat (map raw_octets
              (filter (\<lambda>r. raw_type r \<notin> set oo) (filter (\<lambda>r. present r \<noteq> 0) raws))))"
  using assms
proof (induction raws arbitrary: pkt)
  case Nil
  then show ?case by simp
next
  case (Cons r raws)
  then show ?case
    by (simp add: to_be_compressed_iff put_raw_extension_ok Let_def)
qed

lemma ech_inner_exts_loop_plan:
  assumes "\<forall>r \<in> set raws. raw_type r < 65536 \<and> length (raw_body r) < 65536"
    and "\<forall>t \<in> set oo. t < 65536" and "2 * length oo < 65536"
  shows "ech_inner_exts_loop oo raws False pkt = Some (pkt @ inner_exts_plan oo raws)"
  using assms(1)
proof (induction raws arbitrary: pkt)
  case Nil
  then show ?case by (simp add: inner_exts_plan_def)
next
  case (Cons r raws)
  show ?case
  proof (cases "present r = 0")
    case True
    with Cons show ?thesis by (simp add: inner_exts_plan_def)
  next
    case False
    show ?thesis
    proof (cases "raw_type r \<in> set oo")
      case True
      with False Cons.prems show ?thesis
        by (simp add: to_be_compressed_iff put_outer_extensions_ok [OF assms(2,3)]
            ech_inner_exts_loop_done inner_exts_plan_def Let_def)
    next
      case notin: False
      with False Cons show ?thesis
        by (auto simp: to_be_compressed_iff put_raw_extension_ok inner_exts_plan_def Let_def)
    qed
  qed
qed

lemmas wpacket_defs = WPACKET_put_bytes_u8_def WPACKET_put_bytes_u16_def
  WPACKET_put_bytes_u24_def WPACKET_memcpy_def WPACKET_sub_memcpy_u16_def
  sub_packet_u8_def sub_packet_u16_def sub_packet_u24_def

lemma s4_eval:
  "ech_encode_inner (Some [0x13, 1]) s4_session
     = (1, s4_session\<lparr>ext_encoded_innerch := Some s4_encoded, ext_encoded_innerch_len := 71\<rparr>)"
  by (simp add: ech_encode_inner_def ech_encode_inner_octets_def s4_session_def blank_SSL_def
      s4_raws_def s4_raw_def s4_encoded_def wpacket_defs put_outer_extensions_def
      put_raw_extension_def TLSEXT_TYPE_outer_extensions_def SSL3_MT_CLIENT_HELLO_def
      SSL3_RANDOM_SIZE_def)

lemma s4_read:
  "client_hello_extensions s4_encoded
     = Some [(0xfd00, [0, 10, 0, 13]), (51, [0, 1, 2]), (0, [0, 3, 0, 0, 0])]"
  by (simp add: client_hello_extensions_def s4_encoded_def skip_prefixed_1_def pkt_defs)

text \<open>
  C2, the claim as stated.  In scenario S4 \<open>ech_encode_inner\<close> succeeds, and the extensions
  of the encoded inner are, in this order, \<open>outer_extensions\<close>, key_share and server_name:
  the \<open>outer_extensions\<close> extension stands first, not last.  It is written when the first
  compressed extension is met, not after all extensions have been processed.  Its length
  field is \<open>00 04\<close> and its value \<open>00 0a 00 0d\<close>.
\<close>

theorem ech_encode_inner_s4_outer_extensions_not_last:
  "fst (ech_encode_inner (Some [0x13, 1]) s4_session) = 1
   \<and> ext_encoded_innerch (snd (ech_encode_inner (Some [0x13, 1]) s4_session)) = Some s4_encoded
   \<and> client_hello_extensions s4_encoded
       = Some [(TLSEXT_TYPE_outer_extensions, [0, 10, 0, 13]), (51, [0, 1, 2]),
               (0, [0, 3, 0, 0, 0])]
   \<and> map_option last (client_hello_extensions s4_encoded)
       \<noteq> Some (TLSEXT_TYPE_outer_extensions, [4, 0, 10, 0, 13])"
  unfolding s4_eval s4_read by (simp add: TLSEXT_TYPE_outer_extensions_def)

text \<open>
  C2, amended.  When \<open>ech_encode_inner\<close> encodes a ClientHello whose extensions and
  recorded types fit their length fields, it succeeds and the extension block of the
  encoded inner is \<open>inner_exts_plan\<close>: the present extensions that are not compressed, in
  their order, with exactly one \<open>outer_extensions\<close> extension in the place of the first
  compressed one (none when nothing is compressed), carrying the length \<open>2*N\<close> and the
  \<open>N\<close> types of \<open>outer_only\<close> in their order there.  And \<open>ech_same_ext\<close>, called for the
  inner ClientHello on an extension that the policy table marks, appends the type to
  \<open>outer_only\<close>: the types are listed in the order in which they were met.
\<close>

theorem ech_encode_inner_outer_extensions:
  assumes "ech s \<noteq> None" and "clienthello s = Some ch" and "pre_proc_exts ch = Some raws"
    and "oo = take (ext_n_outer_only s) (ext_outer_only s)"
    and "\<forall>r \<in> set raws. raw_type r < 65536 \<and> length (raw_body r) < 65536"
    and "\<forall>t \<in> set oo. t < 65536" and "2 * length oo < 65536"
    and "client_version s < 65536" and "length cb < 65536"
    and "length (inner_exts_plan oo raws) < 65536"
    and "msg = client_hello_inner_octets (client_version s)
                 (take SSL3_RANDOM_SIZE (s3_client_random s)) cb (inner_exts_plan oo raws)"
  shows "ech_encode_inner (Some cb) s
           = (1, s\<lparr>ext_encoded_innerch := Some msg, ext_encoded_innerch_len := length msg\<rparr>)
         \<and> (ech s1 \<noteq> None \<and> ext_ch_depth s1 = 1 \<and> 0 \<le> map_ind (ext_etype s1)
              \<and> map_ind (ext_etype s1) < int (length policy)
              \<and> policy ! nat (map_ind (ext_etype s1)) \<noteq> 0
              \<and> ext_n_outer_only s1 < length (ext_outer_only s1)
              \<and> length (ext_outer_only s1) = ECH_OUTERS_MAX
            \<longrightarrow> (case ech_same_ext policy indep map_ind s1 ich pkt of
                   (rv, s2, pkt') \<Rightarrow>
                     rv = ECH_SAME_EXT_CONTINUE \<and> pkt' = pkt
                     \<and> take (ext_n_outer_only s2) (ext_outer_only s2)
                         = take (ext_n_outer_only s1) (ext_outer_only s1) @ [ext_etype s1]))"
proof
  have loop: "ech_inner_exts_loop oo raws False [] = Some (inner_exts_plan oo raws)"
    using ech_inner_exts_loop_plan [OF assms(5,6,7), of "[]"] by simp
  have "length (take SSL3_RANDOM_SIZE (s3_client_random s)) \<le> 32"
    by (simp add: SSL3_RANDOM_SIZE_def)
  then have total:
    "41 + (length (take SSL3_RANDOM_SIZE (s3_client_random s)) + length cb
          + length (inner_exts_plan oo raws)) < 16777216"
    using assms(9,10) by simp
  have "ech_encode_inner_octets (Some cb) s = Some msg"
    using assms(2,3,8,9,10) total
    by (simp add: ech_encode_inner_octets_def wpacket_defs loop assms(4) [symmetric] assms(11)
        client_hello_inner_octets_def u16_def u24_def Let_def)
  then show "ech_encode_inner (Some cb) s
           = (1, s\<lparr>ext_encoded_innerch := Some msg, ext_encoded_innerch_len := length msg\<rparr>)"
    using assms(1) by (simp add: ech_encode_inner_def)
next
  show "ech s1 \<noteq> None \<and> ext_ch_depth s1 = 1 \<and> 0 \<le> map_ind (ext_etype s1)
              \<and> map_ind (ext_etype s1) < int (length policy)
              \<and> policy ! nat (map_ind (ext_etype s1)) \<noteq> 0
              \<and> ext_n_outer_only s1 < length (ext_outer_only s1)
              \<and> length (ext_outer_only s1) = ECH_OUTERS_MAX
            \<longrightarrow> (case ech_same_ext policy indep map_ind s1 ich pkt of
                   (rv, s2, pkt') \<Rightarrow>
                     rv = ECH_SAME_EXT_CONTINUE \<and> pkt' = pkt
                     \<and> take (ext_n_outer_only s2) (ext_outer_only s2)
                         = take (ext_n_outer_only s1) (ext_outer_only s1) @ [ext_etype s1])"
    by (auto simp: ech_same_ext_def Let_def take_Suc_conv_app_nth)
qed

theorem ech_encode_inner_outer_extensions_witness:
  "ech_encode_inner (Some [0x13, 1]) s4_session
     = (1, s4_session\<lparr>ext_encoded_innerch := Some s4_encoded, ext_encoded_innerch_len := 71\<rparr>)
   \<and> inner_exts_plan [10, 13] s4_raws
       = outer_extensions_octets [10, 13] @ raw_octets (s4_raw 51 [0, 1, 2])
         @ raw_octets (s4_raw 0 [0, 3, 0, 0, 0])
   \<and> ech_same_ext s4_policy ech_outer_indep s4_map_ind
         (s4_session\<lparr>ext_etype := 13, ext_n_outer_only := 1,
            ext_outer_only := [10, 0, 0, 0, 0, 0, 0, 0, 0, 0]\<rparr>) None None
       = (ECH_SAME_EXT_CONTINUE, s4_session\<lparr>ext_etype := 13\<rparr>, None)"
proof -
  have plan: "inner_exts_plan [10, 13] s4_raws
       = outer_extensions_octets [10, 13] @ raw_octets (s4_raw 51 [0, 1, 2])
         @ raw_octets (s4_raw 0 [0, 3, 0, 0, 0])"
    by (simp add: inner_exts_plan_def s4_raws_def s4_raw_def)
  have enc: "client_hello_inner_octets (client_version s4_session)
                 (take SSL3_RANDOM_SIZE (s3_client_random s4_session)) [0x13, 1]
                 (inner_exts_plan [10, 13] s4_raws) = s4_encoded"
    by (simp add: plan client_hello_inner_octets_def s4_session_def blank_SSL_def
        s4_encoded_def outer_extensions_octets_def raw_octets_def raw_body_def ext_octets_def
        s4_raw_def u16_def u24_def TLSEXT_TYPE_outer_extensions_def SSL3_MT_CLIENT_HELLO_def
        SSL3_RANDOM_SIZE_def)
  have len: "length s4_encoded = 71"
    by (simp add: s4_encoded_def)
  have same: "ech_same_ext s4_policy ech_outer_indep s4_map_ind
         (s4_session\<lparr>ext_etype := 13, ext_n_outer_only := 1,
            ext_outer_only := [10, 0, 0, 0, 0, 0, 0, 0, 0, 0]\<rparr>) None None
       = (ECH_SAME_EXT_CONTINUE, s4_session\<lparr>ext_etype := 13\<rparr>, None)"
    by (simp add: ech_same_ext_def s4_session_def blank_SSL_def ECH_OUTERS_MAX_def Let_def
        s4_policy_def s4_map_ind_def ECH_SAME_EXT_CONTINUE_def)
  have h1: "ech s4_session \<noteq> None"
    and h2: "clienthello s4_session = Some \<lparr>pre_proc_exts = Some s4_raws\<rparr>"
    and h3: "pre_proc_exts \<lparr>pre_proc_exts = Some s4_raws\<rparr> = Some s4_raws"
    and h4: "[10, 13] = take (ext_n_outer_only s4_session) (ext_outer_only s4_session)"
    and h8: "client_version s4_session < 65536"
    by (simp_all add: s4_session_def blank_SSL_def)
  have h5: "\<forall>r \<in> set s4_raws. raw_type r < 65536 \<and> length (raw_body r) < 65536"
    by (simp add: s4_raws_def s4_raw_def raw_body_def)
  have h6: "\<forall>t \<in> set [10, 13 :: nat]. t < 65536" and h7: "2 * length [10, 13 :: nat] < 65536"
    and h9: "length [0x13, 1 :: nat] < 65536"
    by simp_all
  have h10: "length (inner_exts_plan [10, 13] s4_raws) < 65536"
    by (simp add: plan outer_extensions_octets_def raw_octets_def raw_body_def ext_octets_def
        u16_def s4_raw_def)
  have "ech_encode_inner (Some [0x13, 1]) s4_session
     = (1, s4_session\<lparr>ext_encoded_innerch := Some s4_encoded, ext_encoded_innerch_len := 71\<rparr>)"
    using ech_encode_inner_outer_extensions [OF h1 h2 h3 h4 h5 h6 h7 h8 h9 h10 enc [symmetric]]
    by (simp add: len)
  with plan same show ?thesis by simp
qed

subsection \<open>The swap of inner and outer session\<close>

lemmas swap_eval = ech_swaperoo_def swap_fields_def store_upd_def new_transcript_def
  innerch_octets_def swap_store_def swap_outer_def swap_inner_def blank_SSL_def
  env_accept_def env_reject_sni_def flags_at_def SSL3_MT_CLIENT_HELLO_def Let_def

text \<open>
  C4, the claim as stated.  The swap succeeds and sets \<open>ech_success\<close> on both objects,
  but \<open>ech_done\<close> is 0 on both afterwards: \<open>ech_swaperoo\<close> does not set the attempted and
  done flags (the four assignments are commented out in the source).
\<close>

theorem ech_swaperoo_done_not_set:
  "fst (ech_swaperoo env_accept swap_store (Some 1)) = 1
   \<and> flags_at (snd (ech_swaperoo env_accept swap_store (Some 1))) 1 = Some (1, 0, 1)
   \<and> flags_at (snd (ech_swaperoo env_accept swap_store (Some 1))) 2 = Some (1, 0, 1)"
  by (simp add: swap_eval)

text \<open>
  The transcript of the session at \<open>s\<close> after the swap of this example: the inner
  ClientHello, then the old buffer from offset \<open>outer_chlen\<close>, which the source computes as
  one plus the three-octet length.
\<close>

lemma ech_swaperoo_example_transcript:
  "map_option s3_handshake_buffer (snd (ech_swaperoo env_accept swap_store (Some 1)) 1)
     = Some [1, 0, 0, 1, 9, 2, 3, 3, 2, 0]"
  by (simp add: swap_eval)

text \<open>
  C4, amended.  For an outer session at \<open>s\<close> linked to a different inner session at
  \<open>inp\<close>: when \<open>ech_swaperoo\<close> returns 1, \<open>ech_success\<close> is 1 on both objects, and the
  attempted and done flags have been exchanged with the rest of the contents, so that each
  object carries the values the other had; \<open>ech_swaperoo\<close> sets neither.  When the calls
  before it succeed and \<open>final_server_name\<close> does not return 1, the function returns 0 and
  \<open>ech_success\<close> is 0 on both objects.
\<close>

theorem ech_swaperoo_flags:
  assumes "h s = Some so" and "ext_inner_s so = Some inp" and "inp \<noteq> s"
    and "h inp = Some si" and "ext_outer_s si = Some s"
    and "ech_swaperoo env h (Some s) = (rv, h')"
  shows "(rv = 1 \<longrightarrow>
            flags_at h' s = Some (ext_ech_attempted si, ext_ech_done si, 1)
            \<and> flags_at h' inp = Some (ext_ech_attempted so, ext_ech_done so, 1))
         \<and> (new_transcript so \<noteq> None \<and> (\<forall>x. ssl3_init_finished_mac env x \<noteq> 0)
             \<and> (\<forall>x b. ssl3_finish_mac env x b \<noteq> 0) \<and> (\<forall>x. final_server_name env x \<noteq> 1)
            \<longrightarrow> rv = 0
                \<and> flags_at h' s = Some (ext_ech_attempted si, ext_ech_done si, 0)
                \<and> flags_at h' inp = Some (ext_ech_attempted so, ext_ech_done so, 0))"
  using assms
  by (auto simp: ech_swaperoo_def swap_fields_def store_upd_def flags_at_def Let_def
      split: option.splits if_splits)

theorem ech_swaperoo_flags_witness:
  "flags_at (snd (ech_swaperoo env_accept swap_store (Some 1))) 1 = Some (1, 0, 1)
   \<and> flags_at (snd (ech_swaperoo env_accept swap_store (Some 1))) 2 = Some (1, 0, 1)
   \<and> fst (ech_swaperoo env_reject_sni swap_store (Some 1)) = 0
   \<and> flags_at (snd (ech_swaperoo env_reject_sni swap_store (Some 1))) 1 = Some (1, 0, 0)
   \<and> flags_at (snd (ech_swaperoo env_reject_sni swap_store (Some 1))) 2 = Some (1, 0, 0)"
proof -
  have a: "swap_store 1 = Some swap_outer" and b: "ext_inner_s swap_outer = Some 2"
    and c: "(2 :: addr) \<noteq> 1" and d: "swap_store 2 = Some swap_inner"
    and e: "ext_outer_s swap_inner = Some 1"
    by (simp_all add: swap_store_def swap_outer_def swap_inner_def blank_SSL_def)
  have ok: "fst (ech_swaperoo env_accept swap_store (Some 1)) = 1"
    by (simp add: swap_eval)
  have t: "new_transcript swap_outer \<noteq> None"
    by (simp add: new_transcript_def swap_outer_def blank_SSL_def SSL3_MT_CLIENT_HELLO_def)
  have r: "(\<forall>x. ssl3_init_finished_mac env_reject_sni x \<noteq> 0)
      \<and> (\<forall>x b. ssl3_finish_mac env_reject_sni x b \<noteq> 0)
      \<and> (\<forall>x. final_server_name env_reject_sni x \<noteq> 1)"
    by (simp add: env_reject_sni_def env_accept_def)
  have f: "ext_ech_attempted swap_outer = 1" "ext_ech_done swap_outer = 0"
    "ext_ech_attempted swap_inner = 1" "ext_ech_done swap_inner = 0"
    by (simp_all add: swap_outer_def swap_inner_def blank_SSL_def)
  from ech_swaperoo_flags [OF a b c d e surjective_pairing, of env_accept] ok
    ech_swaperoo_flags [OF a b c d e surjective_pairing, of env_reject_sni] t r
  show ?thesis
    by (simp add: f)
qed

end
